theory Spec2Isabelle
  imports Main "HOL-Library.AList" "HOL-Library.Multiset"
begin

section \<open>Python primitives used by the two services\<close>

text \<open>
  Strings are \<^typ>\<open>string\<close> and \<open>bytes\<close> values are lists of characters. The few
  built-ins the services call are written out: \<open>str\<close> of an integer, \<open>str.join\<close>,
  \<open>str.lower\<close> (on ASCII letters), \<open>str.replace\<close> of one character, \<open>str.rfind\<close> of
  one character and \<open>os.path.splitext\<close> of the POSIX path module.
\<close>

type_synonym bytes = "char list"

definition digit :: "nat \<Rightarrow> char" where
  "digit n = ''0123456789'' ! (n mod 10)"

function str_nat :: "nat \<Rightarrow> string" where
  "str_nat n = (if n < 10 then [digit n] else str_nat (n div 10) @ [digit n])"
  by pat_completeness auto
termination
  by (relation "measure (\<lambda>n. n)") auto

declare str_nat.simps [simp del]

definition str_int :: "int \<Rightarrow> string" where
  "str_int i = (if i < 0 then CHR ''-'' # str_nat (nat (- i)) else str_nat (nat i))"

fun join :: "string \<Rightarrow> string list \<Rightarrow> string" where
  "join sep [] = []"
| "join sep [x] = x"
| "join sep (x # y # ys) = x @ sep @ join sep (y # ys)"

definition lower_char :: "char \<Rightarrow> char" where
  "lower_char c =
     (case map_of (zip ''ABCDEFGHIJKLMNOPQRSTUVWXYZ'' ''abcdefghijklmnopqrstuvwxyz'') c of
        Some l \<Rightarrow> l
      | None \<Rightarrow> c)"

definition lower :: "string \<Rightarrow> string" where
  "lower s = map lower_char s"

definition replace_char :: "char \<Rightarrow> char \<Rightarrow> string \<Rightarrow> string" where
  "replace_char a b s = map (\<lambda>c. if c = a then b else c) s"

text \<open>\<open>p.rfind(c)\<close>: the highest index of \<open>c\<close> in \<open>p\<close>, or \<open>-1\<close>.\<close>

fun rfind_from :: "char \<Rightarrow> string \<Rightarrow> int \<Rightarrow> int \<Rightarrow> int" where
  "rfind_from c [] i found = found"
| "rfind_from c (x # xs) i found = rfind_from c xs (i + 1) (if x = c then i else found)"

definition rfind :: "string \<Rightarrow> char \<Rightarrow> int" where
  "rfind p c = rfind_from c p 0 (- 1)"

text \<open>
  \<open>os.path.splitext\<close>: the extension starts at the last dot after the last slash, and
  the dots that lead the file name are skipped by the inner loop, so a name made of
  leading dots and no other dot has the empty extension.
\<close>

function skip_leading_dots :: "string \<Rightarrow> int \<Rightarrow> int \<Rightarrow> string \<times> string" where
  "skip_leading_dots p filenameIndex dotIndex =
     (if filenameIndex < dotIndex then
        (if take 1 (drop (nat filenameIndex) p) \<noteq> ''.''
         then (take (nat dotIndex) p, drop (nat dotIndex) p)
         else skip_leading_dots p (filenameIndex + 1) dotIndex)
      else (p, []))"
  by pat_completeness auto
termination
  by (relation "measure (\<lambda>(p, filenameIndex, dotIndex). nat (dotIndex - filenameIndex))") auto

declare skip_leading_dots.simps [simp del]

definition splitext :: "string \<Rightarrow> string \<times> string" where
  "splitext p =
     (let sepIndex = rfind p CHR ''/'';
          dotIndex = rfind p CHR ''.''
      in if dotIndex > sepIndex then skip_leading_dots p (sepIndex + 1) dotIndex
         else (p, []))"

text \<open>
  The exceptions that the two services raise, catch or let through. A handler catches
  the classes it names: \<open>except Exception\<close> all of them, \<open>except ClientError\<close> the error
  answers of the object store only, not the client library's connection-level
  \<open>BotoCoreError\<close>; \<open>DBAPIError\<close> is the database driver refusing a statement.
\<close>

datatype exc =
    ValueError string
  | ClientError string
  | BotoCoreError string
  | DBAPIError
  | ConnectError
  | TimeoutException
  | HTTPStatusError nat
  | WebSocketDisconnect
  | RuntimeError
  | OtherException

text \<open>
  \<open>str\<close> of an exception is its message. The services write the messages of
  \<open>ValueError\<close>; a library's exception carries the message it is given here, and one
  without a message is rendered by the name of its class.
\<close>

fun str_exc :: "exc \<Rightarrow> string" where
  "str_exc (ValueError msg) = msg"
| "str_exc (ClientError msg) = msg"
| "str_exc (BotoCoreError msg) = msg"
| "str_exc DBAPIError = ''DBAPIError''"
| "str_exc ConnectError = ''ConnectError''"
| "str_exc TimeoutException = ''TimeoutException''"
| "str_exc (HTTPStatusError code) = ''HTTPStatusError''"
| "str_exc WebSocketDisconnect = ''WebSocketDisconnect''"
| "str_exc RuntimeError = ''RuntimeError''"
| "str_exc OtherException = ''Exception''"

text \<open>
  The ranges of the database's integer types: the \<open>id\<close> and \<open>task_id\<close> columns are
  32-bit, \<open>size_bytes\<close>, \<open>OFFSET\<close> and \<open>LIMIT\<close> 64-bit. The driver refuses a parameter
  outside the range of its type.
\<close>

definition int32 :: "int \<Rightarrow> bool" where
  "int32 i = (- 2147483648 \<le> i \<and> i \<le> 2147483647)"

definition int64 :: "int \<Rightarrow> bool" where
  "int64 i = (- 9223372036854775808 \<le> i \<and> i \<le> 9223372036854775807)"

section \<open>Board service: tasks\<close>

subsection \<open>Model and schemas\<close>

datatype TaskStatus = TODO | IN_PROGRESS | DONE

text \<open>
  A row of the table \<open>tasks\<close>. The primary key \<open>id\<close> is the field \<open>t_id\<close>; timestamps
  are points on an integer clock.
\<close>

record Task =
  t_id :: int
  title :: string
  description :: "string option"
  status :: TaskStatus
  created_at :: int
  updated_at :: int

text \<open>\<open>TaskResponse\<close> adds \<open>files_count\<close>, which no code path fills: it keeps its default.\<close>

record TaskResponse = Task +
  files_count :: int

definition model_validate :: "Task \<Rightarrow> TaskResponse" where
  "model_validate t = Task.extend t \<lparr>files_count = 0\<rparr>"

text \<open>
  The schema \<open>TaskUpdate\<close>: three optional fields, each defaulting to \<open>None\<close>. A JSON
  body gives a key a value, gives it \<open>null\<close>, or leaves it out; validation maps the last
  two to the same \<open>None\<close>.
\<close>

record TaskUpdate =
  u_title :: "string option"
  u_description :: "string option"
  u_status :: "TaskStatus option"

datatype 'a json_field = Absent | Null | Given 'a

record update_body =
  body_title :: "string json_field"
  body_description :: "string json_field"
  body_status :: "string json_field"

fun optional_field :: "'a json_field \<Rightarrow> 'a option" where
  "optional_field Absent = None"
| "optional_field Null = None"
| "optional_field (Given v) = Some v"

definition TaskStatus_of_value :: "string \<Rightarrow> TaskStatus option" where
  "TaskStatus_of_value s =
     (if s = ''todo'' then Some TODO
      else if s = ''in_progress'' then Some IN_PROGRESS
      else if s = ''done'' then Some DONE
      else None)"

text \<open>Validation of the body against \<open>TaskUpdate\<close>; \<open>None\<close> is the 422 rejection.\<close>

definition validate_TaskUpdate :: "update_body \<Rightarrow> TaskUpdate option" where
  "validate_TaskUpdate b =
     (case optional_field (body_title b) of
        Some t \<Rightarrow>
          if length t < 1 \<or> 200 < length t then None
          else (case optional_field (body_status b) of
                  Some s \<Rightarrow>
                    (case TaskStatus_of_value s of
                       None \<Rightarrow> None
                     | Some st \<Rightarrow>
                         Some \<lparr>u_title = Some t,
                               u_description = optional_field (body_description b),
                               u_status = Some st\<rparr>)
                | None \<Rightarrow>
                    Some \<lparr>u_title = Some t,
                          u_description = optional_field (body_description b),
                          u_status = None\<rparr>)
      | None \<Rightarrow>
          (case optional_field (body_status b) of
             Some s \<Rightarrow>
               (case TaskStatus_of_value s of
                  None \<Rightarrow> None
                | Some st \<Rightarrow>
                    Some \<lparr>u_title = None,
                          u_description = optional_field (body_description b),
                          u_status = Some st\<rparr>)
           | None \<Rightarrow>
               Some \<lparr>u_title = None,
                     u_description = optional_field (body_description b),
                     u_status = None\<rparr>))"

subsection \<open>Task repository\<close>

type_synonym task_table = "Task list"

definition TaskRepository_get_by_id :: "task_table \<Rightarrow> int \<Rightarrow> exc + Task option" where
  "TaskRepository_get_by_id rows task_id =
     (if \<not> int32 task_id then Inl DBAPIError
      else Inr (find (\<lambda>t. t_id t = task_id) rows))"

text \<open>
  \<open>update\<close> flushes the attached, already mutated instance and reads it back. The
  column \<open>updated_at\<close> takes the clock's value when the flush writes a change.
\<close>

definition TaskRepository_update :: "task_table \<Rightarrow> Task \<Rightarrow> int \<Rightarrow> Task \<times> task_table" where
  "TaskRepository_update rows task now =
     (let task' = (if find (\<lambda>t. t_id t = t_id task) rows = Some task then task
                   else task\<lparr>updated_at := now\<rparr>)
      in (task', map (\<lambda>r. if t_id r = t_id task then task' else r) rows))"

definition TaskRepository_delete :: "task_table \<Rightarrow> Task \<Rightarrow> task_table" where
  "TaskRepository_delete rows task = filter (\<lambda>r. t_id r \<noteq> t_id task) rows"








subsection \<open>Task service\<close>

text \<open>
  A service operation returns its result, or the exception that leaves it, together
  with the table as the session holds it at that point.
\<close>

definition TaskService_update_task ::
  "task_table \<Rightarrow> int \<Rightarrow> TaskUpdate \<Rightarrow> int \<Rightarrow> (exc + Task option) \<times> task_table" where
  "TaskService_update_task rows task_id task_data now =
     (case TaskRepository_get_by_id rows task_id of
        Inl e \<Rightarrow> (Inl e, rows)
      | Inr None \<Rightarrow> (Inr None, rows)
      | Inr (Some task) \<Rightarrow>
          (let task = (case u_title task_data of
                         None \<Rightarrow> task | Some v \<Rightarrow> task\<lparr>title := v\<rparr>);
               task = (case u_description task_data of
                         None \<Rightarrow> task | Some v \<Rightarrow> task\<lparr>description := Some v\<rparr>);
               task = (case u_status task_data of
                         None \<Rightarrow> task | Some v \<Rightarrow> task\<lparr>status := v\<rparr>);
               (task, rows) = TaskRepository_update rows task now
           in (Inr (Some task), rows)))"

text \<open>
  The clean-up call of \<open>delete_task\<close>. The network is a function from the URL of the
  DELETE request to its outcome: a raised exception or a response status.
  \<open>raise_for_status\<close> raises on every status outside 2xx, and the handler catches
  every exception, so the helper returns normally on all outcomes.
\<close>

definition raise_for_status :: "nat \<Rightarrow> exc + unit" where
  "raise_for_status code = (if 200 \<le> code \<and> code < 300 then Inr () else Inl (HTTPStatusError code))"

definition delete_task_files ::
  "(string \<Rightarrow> exc + nat) \<Rightarrow> string \<Rightarrow> int \<Rightarrow> exc + unit" where
  "delete_task_files client_delete file_service_url task_id =
     (let url = file_service_url @ ''/api/v1/files/task/'' @ str_int task_id;
          attempt = (case client_delete url of
                       Inl e \<Rightarrow> Inl e
                     | Inr code \<Rightarrow> raise_for_status code)
      in case attempt of
           Inl e \<Rightarrow> Inr ()
         | Inr u \<Rightarrow> Inr ())"

definition TaskService_delete_task ::
  "(string \<Rightarrow> exc + nat) \<Rightarrow> string \<Rightarrow> task_table \<Rightarrow> int
     \<Rightarrow> (exc + bool) \<times> task_table" where
  "TaskService_delete_task client_delete file_service_url rows task_id =
     (case TaskRepository_get_by_id rows task_id of
        Inl e \<Rightarrow> (Inl e, rows)
      | Inr None \<Rightarrow> (Inr False, rows)
      | Inr (Some task) \<Rightarrow>
          (case delete_task_files client_delete file_service_url task_id of
             Inl e \<Rightarrow> (Inl e, rows)
           | Inr u \<Rightarrow> (Inr True, TaskRepository_delete rows task)))"

section \<open>Board service: WebSocket manager\<close>

text \<open>
  A websocket is known by its identity, a natural number. \<open>active_connections\<close> is a
  set; the dictionary \<open>connection_ids\<close> is an association list in insertion order, where
  \<open>d[k] = v\<close> is \<^const>\<open>AList.update\<close> and \<open>d.pop(k, None)\<close> is \<^const>\<open>AList.delete\<close>.
  The lock serialises the bodies, so each call is one step on the state.
\<close>

record WebSocketManager =
  active_connections :: "nat set"
  connection_ids :: "(string \<times> nat) list"

definition new_manager :: WebSocketManager where
  "new_manager = \<lparr>active_connections = {}, connection_ids = []\<rparr>"

text \<open>\<open>accept\<close> is the outcome of the transport-level accept: an exception, or none.\<close>

definition connect ::
  "WebSocketManager \<Rightarrow> nat \<Rightarrow> string \<Rightarrow> exc option \<Rightarrow> exc + WebSocketManager" where
  "connect m websocket client_id accept =
     (case accept of
        Some e \<Rightarrow> Inl e
      | None \<Rightarrow>
          Inr (m\<lparr>active_connections := insert websocket (active_connections m),
                 connection_ids := AList.update client_id websocket (connection_ids m)\<rparr>))"

definition disconnect :: "WebSocketManager \<Rightarrow> nat \<Rightarrow> string \<Rightarrow> WebSocketManager" where
  "disconnect m websocket client_id =
     m\<lparr>active_connections := active_connections m - {websocket},
       connection_ids := AList.delete client_id (connection_ids m)\<rparr>"

definition connection_count :: "WebSocketManager \<Rightarrow> int" where
  "connection_count m = int (card (active_connections m))"

text \<open>A sequence of calls on the process-wide manager; a call that raises leaves it as it was.\<close>

datatype ws_call = Connect nat string "exc option" | Disconnect nat string

fun call :: "WebSocketManager \<Rightarrow> ws_call \<Rightarrow> WebSocketManager" where
  "call m (Connect websocket client_id accept) =
     (case connect m websocket client_id accept of Inl e \<Rightarrow> m | Inr m' \<Rightarrow> m')"
| "call m (Disconnect websocket client_id) = disconnect m websocket client_id"

definition run :: "ws_call list \<Rightarrow> WebSocketManager" where
  "run calls = foldl call new_manager calls"

text \<open>
  The registry is consistent when every connection of the set has exactly one entry
  in the dictionary and every entry of the dictionary is a connection of the set.
\<close>

definition registry_consistent :: "WebSocketManager \<Rightarrow> bool" where
  "registry_consistent m =
     ((\<forall>ws \<in> active_connections m.
          length (filter (\<lambda>(cid, w). w = ws) (connection_ids m)) = 1)
      \<and> (\<forall>(cid, w) \<in> set (connection_ids m). w \<in> active_connections m))"

text \<open>
  A call is paired with the state when a \<open>Connect\<close> brings a websocket and an
  identifier that are both new, and a \<open>Disconnect\<close> names a websocket with the
  identifier it is registered under, or a pair of which nothing is registered.
\<close>

fun paired :: "WebSocketManager \<Rightarrow> ws_call \<Rightarrow> bool" where
  "paired m (Connect websocket client_id accept) =
     (websocket \<notin> active_connections m \<and> map_of (connection_ids m) client_id = None)"
| "paired m (Disconnect websocket client_id) =
     (map_of (connection_ids m) client_id = Some websocket
      \<or> (websocket \<notin> active_connections m \<and> map_of (connection_ids m) client_id = None))"

fun all_paired :: "WebSocketManager \<Rightarrow> ws_call list \<Rightarrow> bool" where
  "all_paired m [] = True"
| "all_paired m (c # cs) = (paired m c \<and> all_paired (call m c) cs)"

subsection \<open>Broadcast\<close>

datatype jvalue = JNull | JStr string | JInt int | JDict "(string \<times> jvalue) list"

type_synonym message = "(string \<times> jvalue) list"

text \<open>
  The first loop sends to a snapshot of the set, here in increasing order of identity,
  and collects the connections whose send raised one of the two caught exceptions;
  any other exception leaves the loop and the call.
\<close>

fun deliver :: "(nat \<Rightarrow> exc option) \<Rightarrow> nat list \<Rightarrow> nat list \<Rightarrow> exc + nat list" where
  "deliver send_json [] disconnected = Inr disconnected"
| "deliver send_json (connection # rest) disconnected =
     (case send_json connection of
        None \<Rightarrow> deliver send_json rest disconnected
      | Some e \<Rightarrow>
          if e = WebSocketDisconnect \<or> e = RuntimeError
          then deliver send_json rest (disconnected @ [connection])
          else Inl e)"

text \<open>The second loop: drop the connection and the first identifier that maps to it.\<close>

definition purge :: "WebSocketManager \<Rightarrow> nat \<Rightarrow> WebSocketManager" where
  "purge m conn =
     (let m = m\<lparr>active_connections := active_connections m - {conn}\<rparr>
      in case find (\<lambda>(cid, ws). ws = conn) (connection_ids m) of
           None \<Rightarrow> m
         | Some (cid, ws) \<Rightarrow> m\<lparr>connection_ids := AList.delete cid (connection_ids m)\<rparr>)"

text \<open>
  \<open>broadcast\<close> returns the message dictionary as the call leaves it (it is mutated in
  place) and the manager, or the exception that left the call. \<open>now\<close> is
  \<open>datetime.utcnow().isoformat()\<close>.
\<close>

definition broadcast ::
  "WebSocketManager \<Rightarrow> message \<Rightarrow> string \<Rightarrow> (nat \<Rightarrow> exc option)
     \<Rightarrow> message \<times> (exc + WebSocketManager)" where
  "broadcast m message now send_json =
     (let message = (if map_of message ''timestamp'' = None
                     then AList.update ''timestamp'' (JStr now) message else message)
      in case deliver send_json (sorted_list_of_set (active_connections m)) [] of
           Inl e \<Rightarrow> (message, Inl e)
         | Inr disconnected \<Rightarrow>
             (message, Inr (if disconnected \<noteq> [] then foldl purge m disconnected else m)))"


definition broadcast_task_updated ::
  "WebSocketManager \<Rightarrow> message \<Rightarrow> string \<Rightarrow> (nat \<Rightarrow> exc option)
     \<Rightarrow> message \<times> (exc + WebSocketManager)" where
  "broadcast_task_updated m task_data now send_json =
     broadcast m [(''type'', JStr ''task_updated''), (''data'', JDict task_data)] now send_json"

definition broadcast_task_deleted ::
  "WebSocketManager \<Rightarrow> int \<Rightarrow> string \<Rightarrow> (nat \<Rightarrow> exc option)
     \<Rightarrow> message \<times> (exc + WebSocketManager)" where
  "broadcast_task_deleted m task_id now send_json =
     broadcast m [(''type'', JStr ''task_deleted''), (''data'', JDict [(''task_id'', JInt task_id)])]
       now send_json"

section \<open>Board service: task HTTP API\<close>

text \<open>
  A handler's reply: a status with a payload, an \<open>HTTPException\<close> with its status and
  detail, or the 422 of a request that fails validation. When an exception leaves a
  handler the application answers 500 and the session is rolled back: the handler's
  outcome is then that exception with the table and the manager as they were. A handler
  that raises \<open>HTTPException\<close> has written nothing. \<open>isoformat\<close> renders a point of the
  clock; \<open>utcnow\<close> is the string the broadcast stamps.
\<close>

datatype 'a reply = Reply nat 'a | HTTPException nat string | RequestValidationError

record TaskListResponse =
  tasks :: "TaskResponse list"
  total :: int

definition value_of :: "TaskStatus \<Rightarrow> string" where
  "value_of s = (case s of TODO \<Rightarrow> ''todo'' | IN_PROGRESS \<Rightarrow> ''in_progress'' | DONE \<Rightarrow> ''done'')"

definition task_dict :: "(int \<Rightarrow> string) \<Rightarrow> Task \<Rightarrow> message" where
  "task_dict isoformat task =
     [(''id'', JInt (t_id task)),
      (''title'', JStr (title task)),
      (''description'', (case description task of None \<Rightarrow> JNull | Some d \<Rightarrow> JStr d)),
      (''status'', JStr (value_of (status task))),
      (''created_at'', JStr (isoformat (created_at task))),
      (''updated_at'', JStr (isoformat (updated_at task)))]"

definition api_update_task ::
  "WebSocketManager \<Rightarrow> (nat \<Rightarrow> exc option) \<Rightarrow> (int \<Rightarrow> string) \<Rightarrow> string
     \<Rightarrow> task_table \<Rightarrow> int \<Rightarrow> update_body \<Rightarrow> int
     \<Rightarrow> (exc + TaskResponse reply) \<times> task_table \<times> WebSocketManager" where
  "api_update_task m send_json isoformat utcnow rows task_id body now =
     (case validate_TaskUpdate body of
        None \<Rightarrow> (Inr RequestValidationError, rows, m)
      | Some task_data \<Rightarrow>
          (case TaskService_update_task rows task_id task_data now of
             (Inl e, rows') \<Rightarrow> (Inl e, rows, m)
           | (Inr None, rows') \<Rightarrow>
               (Inr (HTTPException 404 (''Task with id '' @ str_int task_id @ '' not found'')),
                rows, m)
           | (Inr (Some task), rows') \<Rightarrow>
               (case snd (broadcast_task_updated m (task_dict isoformat task) utcnow send_json) of
                  Inl e \<Rightarrow> (Inl e, rows, m)
                | Inr m' \<Rightarrow> (Inr (Reply 200 (model_validate task)), rows', m'))))"

definition api_delete_task ::
  "(string \<Rightarrow> exc + nat) \<Rightarrow> string \<Rightarrow> WebSocketManager \<Rightarrow> (nat \<Rightarrow> exc option) \<Rightarrow> string
     \<Rightarrow> task_table \<Rightarrow> int \<Rightarrow> (exc + unit reply) \<times> task_table \<times> WebSocketManager" where
  "api_delete_task client_delete file_service_url m send_json utcnow rows task_id =
     (case TaskService_delete_task client_delete file_service_url rows task_id of
        (Inl e, rows') \<Rightarrow> (Inl e, rows, m)
      | (Inr deleted, rows') \<Rightarrow>
          if \<not> deleted
          then (Inr (HTTPException 404 (''Task with id '' @ str_int task_id @ '' not found'')),
                rows, m)
          else (case snd (broadcast_task_deleted m task_id utcnow send_json) of
                  Inl e \<Rightarrow> (Inl e, rows, m)
                | Inr m' \<Rightarrow> (Inr (Reply 204 ()), rows', m')))"


section \<open>File service\<close>

subsection \<open>Settings, model and object store\<close>

record Settings =
  max_file_size_mb :: int
  allowed_extensions :: "string list"

definition max_file_size_bytes :: "Settings \<Rightarrow> int" where
  "max_file_size_bytes s = max_file_size_mb s * 1024 * 1024"

definition default_settings :: Settings where
  "default_settings =
     \<lparr>max_file_size_mb = 10,
      allowed_extensions =
        [''.pdf'', ''.doc'', ''.docx'', ''.txt'', ''.jpg'', ''.jpeg'', ''.png'', ''.gif'',
         ''.zip'', ''.rar'', ''.xlsx'', ''.xls'']\<rparr>"

text \<open>A row of the table \<open>files\<close>; the primary key \<open>id\<close> is the field \<open>f_id\<close>.\<close>

record File =
  f_id :: int
  task_id :: int
  filename :: string
  file_key :: string
  content_type :: string
  size_bytes :: int
  uploaded_at :: int
  uploaded_by :: "string option"

text \<open>
  The bucket behind the S3 client: the stored objects, and for each key the way a
  request on it fails, if it does. The store refuses the request with an error answer,
  which the client raises as \<open>ClientError\<close>, or the store is not reached, which the client
  raises as a \<open>BotoCoreError\<close> (a refused connection, a timeout).
\<close>

record s3_object =
  o_body :: bytes
  o_content_type :: string
  o_metadata :: "(string \<times> string) list"

datatype s3_fault = Refused string | Unreachable string

fun raised :: "s3_fault \<Rightarrow> exc" where
  "raised (Refused msg) = ClientError msg"
| "raised (Unreachable msg) = BotoCoreError msg"

record S3Client =
  objects :: "string \<rightharpoonup> s3_object"
  fault :: "string \<Rightarrow> s3_fault option"

definition put_object ::
  "S3Client \<Rightarrow> string \<Rightarrow> bytes \<Rightarrow> string \<Rightarrow> (string \<times> string) list \<Rightarrow> exc + S3Client" where
  "put_object c key body ctype metadata =
     (case fault c key of
        Some f \<Rightarrow> Inl (raised f)
      | None \<Rightarrow>
          Inr (c\<lparr>objects := (objects c)(key \<mapsto>
                 \<lparr>o_body = body, o_content_type = ctype, o_metadata = metadata\<rparr>)\<rparr>))"

definition get_object :: "S3Client \<Rightarrow> string \<Rightarrow> exc + bytes" where
  "get_object c key =
     (case fault c key of
        Some f \<Rightarrow> Inl (raised f)
      | None \<Rightarrow>
          (case objects c key of
             None \<Rightarrow> Inl (ClientError ''NoSuchKey'')
           | Some obj \<Rightarrow> Inr (o_body obj)))"

definition delete_object :: "S3Client \<Rightarrow> string \<Rightarrow> exc + S3Client" where
  "delete_object c key =
     (case fault c key of
        Some f \<Rightarrow> Inl (raised f)
      | None \<Rightarrow> Inr (c\<lparr>objects := (objects c)(key := None)\<rparr>))"

subsection \<open>S3 service\<close>

definition generate_file_key :: "string \<Rightarrow> int \<Rightarrow> string \<Rightarrow> string" where
  "generate_file_key unique_id tid name =
     (let safe_filename = replace_char CHR '' '' CHR ''_'' name
      in ''tasks/'' @ str_int tid @ ''/'' @ unique_id @ ''_'' @ safe_filename)"

definition S3Service_upload_file ::
  "S3Client \<Rightarrow> string \<Rightarrow> bytes \<Rightarrow> int \<Rightarrow> string \<Rightarrow> string \<Rightarrow> exc + (string \<times> S3Client)" where
  "S3Service_upload_file c unique_id file_content tid name ctype =
     (let key = generate_file_key unique_id tid name
      in case put_object c key file_content ctype
                [(''task_id'', str_int tid), (''original_filename'', name)] of
           Inl e \<Rightarrow> Inl e
         | Inr c' \<Rightarrow> Inr (key, c'))"

definition S3Service_download_file :: "S3Client \<Rightarrow> string \<Rightarrow> exc + bytes" where
  "S3Service_download_file c key = get_object c key"

text \<open>\<open>delete_file\<close> catches \<open>ClientError\<close>; an exception of another class leaves it.\<close>

definition S3Service_delete_file :: "S3Client \<Rightarrow> string \<Rightarrow> exc + (bool \<times> S3Client)" where
  "S3Service_delete_file c key =
     (case delete_object c key of
        Inr c' \<Rightarrow> Inr (True, c')
      | Inl e \<Rightarrow> (case e of ClientError msg \<Rightarrow> Inr (False, c) | _ \<Rightarrow> Inl e))"

subsection \<open>File repository\<close>

type_synonym file_table = "File list"

definition FileRepository_get_by_id :: "file_table \<Rightarrow> int \<Rightarrow> exc + File option" where
  "FileRepository_get_by_id rows file_id =
     (if \<not> int32 file_id then Inl DBAPIError
      else Inr (find (\<lambda>f. f_id f = file_id) rows))"

definition FileRepository_get_by_task_id :: "file_table \<Rightarrow> int \<Rightarrow> exc + File list" where
  "FileRepository_get_by_task_id rows tid =
     (if \<not> int32 tid then Inl DBAPIError
      else Inr (sort_key (\<lambda>f. - uploaded_at f) (filter (\<lambda>f. task_id f = tid) rows)))"

definition FileRepository_delete :: "file_table \<Rightarrow> File \<Rightarrow> file_table" where
  "FileRepository_delete rows file = filter (\<lambda>r. f_id r \<noteq> f_id file) rows"

definition FileRepository_delete_by_task_id ::
  "file_table \<Rightarrow> int \<Rightarrow> exc + (int \<times> file_table)" where
  "FileRepository_delete_by_task_id rows tid =
     (case FileRepository_get_by_task_id rows tid of
        Inl e \<Rightarrow> Inl e
      | Inr files \<Rightarrow>
          (let count' = int (length files)
           in Inr (count', foldl FileRepository_delete rows files)))"

subsection \<open>File service\<close>

text \<open>
  The service holds the S3 client and the session; the session is the table and the
  sequence that numbers new rows. An upload arrives as a file name, a declared content
  type and a stream, which \<open>read\<close> consumes from its position to its end.
\<close>

record FileService =
  s3_client :: S3Client
  files :: file_table
  next_id :: int

record UploadFile =
  upload_filename :: string
  upload_content_type :: "string option"
  stream :: bytes
  pos :: nat

definition read :: "UploadFile \<Rightarrow> bytes \<times> UploadFile" where
  "read u = (drop (pos u) (stream u), u\<lparr>pos := max (pos u) (length (stream u))\<rparr>)"

text \<open>
  The insert is refused when a value does not fit its column: \<open>task_id\<close> is 32-bit,
  \<open>size_bytes\<close> 64-bit, and the strings have the lengths of the model's columns.
\<close>

definition fits_columns :: "File \<Rightarrow> bool" where
  "fits_columns file =
     (int32 (task_id file) \<and> int64 (size_bytes file)
      \<and> length (filename file) \<le> 255 \<and> length (file_key file) \<le> 500
      \<and> length (content_type file) \<le> 100
      \<and> (case uploaded_by file of None \<Rightarrow> True | Some who \<Rightarrow> length who \<le> 100))"

definition FileRepository_create ::
  "FileService \<Rightarrow> File \<Rightarrow> int \<Rightarrow> exc + (File \<times> FileService)" where
  "FileRepository_create w file now =
     (if \<not> fits_columns file then Inl DBAPIError
      else
        (let file = file\<lparr>f_id := next_id w, uploaded_at := now\<rparr>
         in Inr (file, w\<lparr>files := files w @ [file], next_id := next_id w + 1\<rparr>)))"

definition validate_file_extension :: "Settings \<Rightarrow> string \<Rightarrow> bool" where
  "validate_file_extension settings name =
     (let ext = lower (snd (splitext name)) in ext \<in> set (allowed_extensions settings))"

definition validate_file_size :: "Settings \<Rightarrow> int \<Rightarrow> bool" where
  "validate_file_size settings n = (n \<le> max_file_size_bytes settings)"

definition extension_error :: "Settings \<Rightarrow> exc" where
  "extension_error settings =
     ValueError (''File extension not allowed. Allowed extensions: ''
                 @ join '', '' (allowed_extensions settings))"

definition size_error :: "Settings \<Rightarrow> exc" where
  "size_error settings =
     ValueError (''File size exceeds maximum limit of ''
                 @ str_int (max_file_size_mb settings) @ '' MB'')"

definition declared_content_type :: "UploadFile \<Rightarrow> string" where
  "declared_content_type u =
     (case upload_content_type u of
        None \<Rightarrow> ''application/octet-stream''
      | Some t \<Rightarrow> if t = [] then ''application/octet-stream'' else t)"

text \<open>
  \<open>upload_file\<close> returns its result or the exception it raises, together with the
  upload and the service as the call leaves them. \<open>unique_id\<close> is the fresh UUID of the
  key and \<open>now\<close> the clock at the insert. An object that was stored stays stored when the
  insert is refused.
\<close>

definition FileService_upload_file ::
  "Settings \<Rightarrow> FileService \<Rightarrow> string \<Rightarrow> int \<Rightarrow> UploadFile \<Rightarrow> int \<Rightarrow> string option
     \<Rightarrow> (exc + File \<times> string) \<times> UploadFile \<times> FileService" where
  "FileService_upload_file settings w unique_id now u tid uploaded_by' =
     (if \<not> validate_file_extension settings (upload_filename u)
      then (Inl (extension_error settings), u, w)
      else
        (let (file_content, u) = read u;
             file_size = int (length file_content)
         in if \<not> validate_file_size settings file_size
            then (Inl (size_error settings), u, w)
            else
              (case S3Service_upload_file (s3_client w) unique_id file_content tid
                      (upload_filename u) (declared_content_type u) of
                 Inl e \<Rightarrow> (Inl e, u, w)
               | Inr (key, c') \<Rightarrow>
                   (let file_record =
                          \<lparr>f_id = 0, task_id = tid, filename = upload_filename u,
                           file_key = key, content_type = declared_content_type u,
                           size_bytes = file_size, uploaded_at = 0, uploaded_by = uploaded_by'\<rparr>
                    in case FileRepository_create (w\<lparr>s3_client := c'\<rparr>) file_record now of
                         Inl e \<Rightarrow> (Inl e, u, w\<lparr>s3_client := c'\<rparr>)
                       | Inr (file_record, w') \<Rightarrow>
                           (Inr (file_record, ''File uploaded successfully''), u, w')))))"


definition FileService_download_file ::
  "FileService \<Rightarrow> int \<Rightarrow> exc + (bytes \<times> File) option" where
  "FileService_download_file w file_id =
     (case FileRepository_get_by_id (files w) file_id of
        Inl e \<Rightarrow> Inl e
      | Inr None \<Rightarrow> Inr None
      | Inr (Some file_record) \<Rightarrow>
          (case S3Service_download_file (s3_client w) (file_key file_record) of
             Inl e \<Rightarrow> Inl e
           | Inr file_content \<Rightarrow> Inr (Some (file_content, file_record))))"

text \<open>
  The deletions return their result, or the exception that leaves them, with the
  service as the call leaves it: an exception of the store leaves the table as it was.
\<close>

definition FileService_delete_file :: "FileService \<Rightarrow> int \<Rightarrow> (exc + bool) \<times> FileService" where
  "FileService_delete_file w file_id =
     (case FileRepository_get_by_id (files w) file_id of
        Inl e \<Rightarrow> (Inl e, w)
      | Inr None \<Rightarrow> (Inr False, w)
      | Inr (Some file_record) \<Rightarrow>
          (case S3Service_delete_file (s3_client w) (file_key file_record) of
             Inl e \<Rightarrow> (Inl e, w)
           | Inr (deleted, c') \<Rightarrow>
               (Inr True, w\<lparr>s3_client := c',
                            files := FileRepository_delete (files w) file_record\<rparr>)))"

fun delete_objects :: "S3Client \<Rightarrow> File list \<Rightarrow> (exc + unit) \<times> S3Client" where
  "delete_objects c [] = (Inr (), c)"
| "delete_objects c (file_record # rest) =
     (case S3Service_delete_file c (file_key file_record) of
        Inl e \<Rightarrow> (Inl e, c)
      | Inr (deleted, c') \<Rightarrow> delete_objects c' rest)"

definition FileService_delete_files_by_task ::
  "FileService \<Rightarrow> int \<Rightarrow> (exc + int) \<times> FileService" where
  "FileService_delete_files_by_task w tid =
     (case FileRepository_get_by_task_id (files w) tid of
        Inl e \<Rightarrow> (Inl e, w)
      | Inr found \<Rightarrow>
          (case delete_objects (s3_client w) found of
             (Inl e, c') \<Rightarrow> (Inl e, w\<lparr>s3_client := c'\<rparr>)
           | (Inr u, c') \<Rightarrow>
               (case FileRepository_delete_by_task_id (files w) tid of
                  Inl e \<Rightarrow> (Inl e, w\<lparr>s3_client := c'\<rparr>)
                | Inr (count', rows) \<Rightarrow> (Inr count', w\<lparr>s3_client := c', files := rows\<rparr>))))"

subsection \<open>File HTTP API\<close>

text \<open>
  As in the board service, an exception that leaves a handler is the handler's outcome
  and the application answers 500. The upload handler catches every exception itself.
\<close>

record StreamingResponse =
  content :: bytes
  media_type :: string
  headers :: "(string \<times> string) list"



definition api_upload_file ::
  "Settings \<Rightarrow> FileService \<Rightarrow> string \<Rightarrow> int \<Rightarrow> UploadFile \<Rightarrow> int \<Rightarrow> string option
     \<Rightarrow> (File \<times> string) reply \<times> UploadFile \<times> FileService" where
  "api_upload_file settings w unique_id now u tid uploaded_by' =
     (case FileService_upload_file settings w unique_id now u tid uploaded_by' of
        (Inr (file_record, message), u', w') \<Rightarrow> (Reply 201 (file_record, message), u', w')
      | (Inl (ValueError msg), u', w') \<Rightarrow> (HTTPException 400 msg, u', w')
      | (Inl e, u', w') \<Rightarrow>
          (HTTPException 500 (''Failed to upload file: '' @ str_exc e), u', w'))"

definition api_download_file :: "FileService \<Rightarrow> int \<Rightarrow> exc + StreamingResponse reply" where
  "api_download_file w file_id =
     (case FileService_download_file w file_id of
        Inl e \<Rightarrow> Inl e
      | Inr None \<Rightarrow>
          Inr (HTTPException 404 (''File with id '' @ str_int file_id @ '' not found''))
      | Inr (Some (file_content, file_record)) \<Rightarrow>
          Inr (Reply 200
                \<lparr>content = file_content,
                 media_type = content_type file_record,
                 headers =
                   [(''Content-Disposition'',
                     ''attachment; filename='' @ [CHR 0x22] @ filename file_record @ [CHR 0x22]),
                    (''Content-Length'', str_int (size_bytes file_record))]\<rparr>))"



definition api_delete_file :: "FileService \<Rightarrow> int \<Rightarrow> (exc + unit reply) \<times> FileService" where
  "api_delete_file w file_id =
     (case FileService_delete_file w file_id of
        (Inl e, w') \<Rightarrow> (Inl e, w')
      | (Inr deleted, w') \<Rightarrow>
          if \<not> deleted
          then (Inr (HTTPException 404 (''File with id '' @ str_int file_id @ '' not found'')),
                w')
          else (Inr (Reply 204 ()), w'))"

text \<open>
  A run of the file service: uploads, deletions, and changes of the way the store
  behaves between them. An upload brings a fresh key when no row has the key it
  generates, as the UUID in the key is there to ensure.
\<close>

datatype file_call =
    Upload string int UploadFile int "string option"
  | DeleteFile int
  | DeleteFilesByTask int
  | StoreBehaves "string \<Rightarrow> s3_fault option"

fun file_step :: "Settings \<Rightarrow> FileService \<Rightarrow> file_call \<Rightarrow> FileService" where
  "file_step settings w (Upload unique_id now u tid who) =
     snd (snd (FileService_upload_file settings w unique_id now u tid who))"
| "file_step settings w (DeleteFile file_id) = snd (FileService_delete_file w file_id)"
| "file_step settings w (DeleteFilesByTask tid) = snd (FileService_delete_files_by_task w tid)"
| "file_step settings w (StoreBehaves f) = w\<lparr>s3_client := (s3_client w)\<lparr>fault := f\<rparr>\<rparr>"

fun fresh_key :: "FileService \<Rightarrow> file_call \<Rightarrow> bool" where
  "fresh_key w (Upload unique_id now u tid who) =
     (generate_file_key unique_id tid (upload_filename u) \<notin> set (map file_key (files w)))"
| "fresh_key w c = True"

fun fresh_keys :: "Settings \<Rightarrow> FileService \<Rightarrow> file_call list \<Rightarrow> bool" where
  "fresh_keys settings w [] = True"
| "fresh_keys settings w (c # cs) =
     (fresh_key w c \<and> fresh_keys settings (file_step settings w c) cs)"

section \<open>Auxiliary notions of the verification\<close>

text \<open>
  The state of the manager in which the dictionary has one entry for each connection of
  the set: its keys are distinct, its values are distinct, and its values are the set.
\<close>

definition registered :: "WebSocketManager \<Rightarrow> bool" where
  "registered m =
     (distinct (map fst (connection_ids m)) \<and> distinct (map snd (connection_ids m))
      \<and> set (map snd (connection_ids m)) = active_connections m)"

text \<open>
  The state of the file service in which every row records the length of the object
  under its key, when the store holds one.
\<close>

definition sizes_recorded :: "FileService \<Rightarrow> bool" where
  "sizes_recorded w =
     (\<forall>f \<in> set (files w). \<forall>obj.
         objects (s3_client w) (file_key f) = Some obj \<longrightarrow>
         size_bytes f = int (length (o_body obj)))"


definition old_task :: Task where
  "old_task = \<lparr>t_id = 1, title = ''T'', description = Some ''old'', status = TODO,
               created_at = 0, updated_at = 0\<rparr>"

definition one_client :: WebSocketManager where
  "one_client = \<lparr>active_connections = {1}, connection_ids = [(''a'', 1)]\<rparr>"

definition empty_service :: FileService where
  "empty_service =
     \<lparr>s3_client = \<lparr>objects = Map.empty, fault = (\<lambda>key. None)\<rparr>, files = [], next_id = 1\<rparr>"

definition one_file :: File where
  "one_file = \<lparr>f_id = 1, task_id = 1, filename = ''test.pdf'',
               file_key = ''tasks/1/test-uuid_test.pdf'', content_type = ''application/pdf'',
               size_bytes = 12, uploaded_at = 0, uploaded_by = Some ''test_user''\<rparr>"

definition stored_object :: s3_object where
  "stored_object = \<lparr>o_body = ''test content'', o_content_type = ''application/pdf'',
                    o_metadata = []\<rparr>"


definition store_with :: "(string \<Rightarrow> s3_fault option) \<Rightarrow> FileService" where
  "store_with f =
     \<lparr>s3_client = \<lparr>objects = [''tasks/1/test-uuid_test.pdf'' \<mapsto> stored_object], fault = f\<rparr>,
      files = [one_file], next_id = 2\<rparr>"

text \<open>
  Two runs of the file service from the empty state: one upload, and the same upload
  after which the store is no longer reached.
\<close>

definition uploaded_once :: FileService where
  "uploaded_once =
     foldl (file_step default_settings) empty_service
       [Upload ''u1'' 5
          \<lparr>upload_filename = ''a.pdf'', upload_content_type = None, stream = ''xyz'', pos = 0\<rparr>
          1 None]"

definition then_unreachable :: FileService where
  "then_unreachable =
     foldl (file_step default_settings) empty_service
       [Upload ''u1'' 5
          \<lparr>upload_filename = ''a.pdf'', upload_content_type = None, stream = ''xyz'', pos = 0\<rparr>
          1 None,
        StoreBehaves (\<lambda>key. Some (Unreachable ''timed out''))]"

section \<open>Task updates\<close>

lemma find_map_same_key:
  assumes "\<And>r. P (f r) = P r"
  shows "find P (map f rows) = map_option f (find P rows)"
  using assms by (induction rows) auto

lemma get_by_id_found:
  assumes "TaskRepository_get_by_id rows i = Inr (Some t)"
  shows "t_id t = i" and "int32 i" and "find (\<lambda>t. t_id t = i) rows = Some t"
  using assms
  by (auto simp: TaskRepository_get_by_id_def find_Some_iff split: if_splits)

lemma get_by_id_after_update:
  assumes "TaskRepository_get_by_id rows i = Inr (Some old)" and "t_id task = i"
  shows "TaskRepository_get_by_id (snd (TaskRepository_update rows task now)) i
           = Inr (Some (fst (TaskRepository_update rows task now)))"
proof -
  define task' where "task' = fst (TaskRepository_update rows task now)"
  have k: "t_id task' = i"
    using assms(2) by (simp add: task'_def TaskRepository_update_def Let_def)
  have rows': "snd (TaskRepository_update rows task now)
                 = map (\<lambda>r. if t_id r = i then task' else r) rows"
    using assms(2) by (simp add: task'_def TaskRepository_update_def Let_def)
  have "find (\<lambda>t. t_id t = i) (map (\<lambda>r. if t_id r = i then task' else r) rows)
          = map_option (\<lambda>r. if t_id r = i then task' else r) (find (\<lambda>t. t_id t = i) rows)"
    by (rule find_map_same_key) (simp add: k)
  also have "\<dots> = Some task'"
    using get_by_id_found [OF assms(1)] by simp
  finally show ?thesis
    using get_by_id_found(2) [OF assms(1)]
    by (simp add: rows' TaskRepository_get_by_id_def task'_def)
qed

lemma update_task_found:
  assumes "TaskRepository_get_by_id rows i = Inr (Some old)"
  shows "\<exists>t rows'. TaskService_update_task rows i d now = (Inr (Some t), rows')
           \<and> TaskRepository_get_by_id rows' i = Inr (Some t)
           \<and> title t = (case u_title d of None \<Rightarrow> title old | Some v \<Rightarrow> v)
           \<and> description t = (case u_description d of None \<Rightarrow> description old | Some v \<Rightarrow> Some v)
           \<and> status t = (case u_status d of None \<Rightarrow> status old | Some v \<Rightarrow> v)"
proof -
  define t3 where "t3 =
    (let task = (case u_title d of None \<Rightarrow> old | Some v \<Rightarrow> old\<lparr>title := v\<rparr>);
         task = (case u_description d of None \<Rightarrow> task | Some v \<Rightarrow> task\<lparr>description := Some v\<rparr>)
     in (case u_status d of None \<Rightarrow> task | Some v \<Rightarrow> task\<lparr>status := v\<rparr>))"
  have id3: "t_id t3 = i"
    using get_by_id_found(1) [OF assms] by (simp add: t3_def Let_def split: option.splits)
  have res: "TaskService_update_task rows i d now
        = (Inr (Some (fst (TaskRepository_update rows t3 now))),
           snd (TaskRepository_update rows t3 now))"
    using assms by (simp add: TaskService_update_task_def t3_def Let_def split_beta)
  have stored: "TaskRepository_get_by_id (snd (TaskRepository_update rows t3 now)) i
        = Inr (Some (fst (TaskRepository_update rows t3 now)))"
    by (rule get_by_id_after_update [OF assms id3])
  have fields: "title (fst (TaskRepository_update rows t3 now)) = title t3"
     "description (fst (TaskRepository_update rows t3 now)) = description t3"
     "status (fst (TaskRepository_update rows t3 now)) = status t3"
    by (simp_all add: TaskRepository_update_def Let_def)
  have "title t3 = (case u_title d of None \<Rightarrow> title old | Some v \<Rightarrow> v)"
    by (simp add: t3_def Let_def split: option.splits)
  moreover have "description t3 = (case u_description d of None \<Rightarrow> description old | Some v \<Rightarrow> Some v)"
    by (simp add: t3_def Let_def split: option.splits)
  moreover have "status t3 = (case u_status d of None \<Rightarrow> status old | Some v \<Rightarrow> v)"
    by (simp add: t3_def Let_def split: option.splits)
  ultimately show ?thesis
    using res stored fields by simp
qed

lemma validate_fields:
  assumes "validate_TaskUpdate b = Some d"
  shows "u_title d = optional_field (body_title b)"
    and "u_description d = optional_field (body_description b)"
  using assms
  by (auto simp: validate_TaskUpdate_def split: option.splits if_splits json_field.splits)

text \<open>
  Claim C1, as the code has it. On an existing task and a body that passes
  validation, \<open>update_task\<close> stores a task in which a field whose key is absent or whose
  value is \<open>null\<close> keeps its stored value, and a field that is given a value takes it: for
  \<open>description\<close> also the empty string. An explicit \<open>null\<close> is not an overwrite; it is
  skipped like an absent key. The endpoint answers 200 with that task when its broadcast
  returns; when a send of the broadcast raises an exception that the broadcast does not
  catch, that exception leaves the handler and the table is as it was before the request.
\<close>

theorem put_task_partial_update:
  assumes "TaskRepository_get_by_id rows i = Inr (Some old)"
      and "validate_TaskUpdate body = Some d"
  shows "\<exists>t rows'.
           TaskService_update_task rows i d now = (Inr (Some t), rows')
         \<and> TaskRepository_get_by_id rows' i = Inr (Some t)
         \<and> (case body_title body of
               Given v \<Rightarrow> title t = v | Null \<Rightarrow> title t = title old
             | Absent \<Rightarrow> title t = title old)
         \<and> (case body_description body of
               Given v \<Rightarrow> description t = Some v | Null \<Rightarrow> description t = description old
             | Absent \<Rightarrow> description t = description old)
         \<and> (case body_status body of
               Given s \<Rightarrow> TaskStatus_of_value s = Some (status t)
             | Null \<Rightarrow> status t = status old
             | Absent \<Rightarrow> status t = status old)
         \<and> (\<forall>m'. snd (broadcast_task_updated m (task_dict isoformat t) utcnow send_json) = Inr m' \<longrightarrow>
                api_update_task m send_json isoformat utcnow rows i body now
                  = (Inr (Reply 200 (model_validate t)), rows', m'))
         \<and> (\<forall>e. snd (broadcast_task_updated m (task_dict isoformat t) utcnow send_json) = Inl e \<longrightarrow>
                api_update_task m send_json isoformat utcnow rows i body now = (Inl e, rows, m))"
proof -
  from update_task_found [OF assms(1), of d now] obtain t rows' where
    t: "TaskService_update_task rows i d now = (Inr (Some t), rows')"
       "TaskRepository_get_by_id rows' i = Inr (Some t)"
       "title t = (case u_title d of None \<Rightarrow> title old | Some v \<Rightarrow> v)"
       "description t = (case u_description d of None \<Rightarrow> description old | Some v \<Rightarrow> Some v)"
       "status t = (case u_status d of None \<Rightarrow> status old | Some v \<Rightarrow> v)"
    by blast
  have ok: "api_update_task m send_json isoformat utcnow rows i body now
              = (Inr (Reply 200 (model_validate t)), rows', m')"
    if "snd (broadcast_task_updated m (task_dict isoformat t) utcnow send_json) = Inr m'" for m'
    using assms(2) t(1) that by (simp add: api_update_task_def)
  have bad: "api_update_task m send_json isoformat utcnow rows i body now = (Inl e, rows, m)"
    if "snd (broadcast_task_updated m (task_dict isoformat t) utcnow send_json) = Inl e" for e
    using assms(2) t(1) that by (simp add: api_update_task_def)
  have ti: "case body_title body of
              Given v \<Rightarrow> title t = v | Null \<Rightarrow> title t = title old
            | Absent \<Rightarrow> title t = title old"
    using t(3) validate_fields(1) [OF assms(2)] by (simp split: json_field.splits)
  have de: "case body_description body of
              Given v \<Rightarrow> description t = Some v | Null \<Rightarrow> description t = description old
            | Absent \<Rightarrow> description t = description old"
    using t(4) validate_fields(2) [OF assms(2)] by (simp split: json_field.splits)
  have st: "case body_status body of
              Given s \<Rightarrow> TaskStatus_of_value s = Some (status t)
            | Null \<Rightarrow> status t = status old
            | Absent \<Rightarrow> status t = status old"
    using t(5) assms(2)
    by (auto simp: validate_TaskUpdate_def split: json_field.splits option.splits if_splits)
  from t(1,2) ti de st ok bad show ?thesis
    by blast
qed

lemma broadcast_without_clients:
  "snd (broadcast new_manager message now send_json) = Inr new_manager"
  by (simp add: broadcast_def new_manager_def Let_def)

lemma broadcast_raising_client:
  "snd (broadcast one_client message now (\<lambda>c. Some OtherException)) = Inl OtherException"
  by (simp add: broadcast_def one_client_def Let_def)

theorem put_task_partial_update_witness:
  "TaskRepository_get_by_id [old_task] 1 = Inr (Some old_task)
   \<and> validate_TaskUpdate \<lparr>body_title = Absent, body_description = Given [], body_status = Null\<rparr>
       = Some \<lparr>u_title = None, u_description = Some [], u_status = None\<rparr>
   \<and> (\<exists>t rows'.
         api_update_task new_manager (\<lambda>c. None) (\<lambda>t. []) ''now'' [old_task] 1
           \<lparr>body_title = Absent, body_description = Given [], body_status = Null\<rparr> 7
          = (Inr (Reply 200 (model_validate t)), rows', new_manager)
       \<and> TaskRepository_get_by_id rows' 1 = Inr (Some t)
       \<and> title t = ''T'' \<and> description t = Some [] \<and> status t = TODO)"
proof -
  let ?body = "\<lparr>body_title = Absent, body_description = Given [], body_status = Null\<rparr>"
  let ?d = "\<lparr>u_title = None, u_description = Some [], u_status = None\<rparr>"
  have h1: "TaskRepository_get_by_id [old_task] 1 = Inr (Some old_task)"
    by (simp add: TaskRepository_get_by_id_def old_task_def int32_def)
  have h2: "validate_TaskUpdate ?body = Some ?d"
    by (simp add: validate_TaskUpdate_def)
  have b: "snd (broadcast_task_updated new_manager msg ''now'' (\<lambda>c. None)) = Inr new_manager"
    for msg
    by (simp add: broadcast_task_updated_def broadcast_without_clients)
  from put_task_partial_update [OF h1 h2, of 7 new_manager "\<lambda>t. []" "''now''" "\<lambda>c. None"] b
  have "\<exists>t rows'.
         api_update_task new_manager (\<lambda>c. None) (\<lambda>t. []) ''now'' [old_task] 1 ?body 7
          = (Inr (Reply 200 (model_validate t)), rows', new_manager)
       \<and> TaskRepository_get_by_id rows' 1 = Inr (Some t)
       \<and> title t = ''T'' \<and> description t = Some [] \<and> status t = TODO"
    by (auto simp: old_task_def)
  with h1 h2 show ?thesis
    by blast
qed

text \<open>
  The claim as stated fails twice. On an explicit \<open>null\<close>, a task whose description is
  \<open>old\<close> keeps it. On a description that is given, with a client whose send raises an
  exception the broadcast does not catch, the request fails and the description is again
  \<open>old\<close>.
\<close>

theorem put_task_not_overwritten_counterexample:
  "api_update_task new_manager (\<lambda>c. None) (\<lambda>t. []) ''now'' [old_task] 1
      \<lparr>body_title = Absent, body_description = Null, body_status = Absent\<rparr> 7
     = (Inr (Reply 200 (model_validate old_task)), [old_task], new_manager)
   \<and> api_update_task one_client (\<lambda>c. Some OtherException) (\<lambda>t. []) ''now'' [old_task] 1
      \<lparr>body_title = Absent, body_description = Given ''new'', body_status = Absent\<rparr> 7
     = (Inl OtherException, [old_task], one_client)
   \<and> description old_task = Some ''old''"
  by (simp add: api_update_task_def validate_TaskUpdate_def TaskService_update_task_def
      TaskRepository_get_by_id_def TaskRepository_update_def Let_def int32_def
      broadcast_task_updated_def broadcast_without_clients broadcast_raising_client)
     (simp add: old_task_def)

section \<open>Task deletion\<close>

lemma get_by_id_deleted:
  "int32 i \<Longrightarrow> TaskRepository_get_by_id (filter (\<lambda>r. t_id r \<noteq> i) rows) i = Inr None"
  by (simp add: TaskRepository_get_by_id_def find_None_iff)

lemma delete_task_files_returns: "delete_task_files client_delete url i = Inr ()"
  by (simp add: delete_task_files_def Let_def split: sum.splits)

text \<open>
  Claim C2. For an existing task and every behaviour of the network (a transport error, a
  timeout, a response of any status), the clean-up helper returns normally,
  \<open>delete_task\<close> returns \<open>True\<close> with the task's row removed, and the task is no longer
  found. The endpoint then answers 204 with the row gone whenever its own broadcast
  returns, again whatever the network did.
\<close>

theorem delete_task_ignores_cleanup_outcome:
  assumes "TaskRepository_get_by_id rows i = Inr (Some task)"
  shows "delete_task_files client_delete url i = Inr ()
       \<and> TaskService_delete_task client_delete url rows i
           = (Inr True, filter (\<lambda>r. t_id r \<noteq> i) rows)
       \<and> TaskRepository_get_by_id (filter (\<lambda>r. t_id r \<noteq> i) rows) i = Inr None
       \<and> (\<forall>m'. snd (broadcast_task_deleted m i utcnow send_json) = Inr m' \<longrightarrow>
              api_delete_task client_delete url m send_json utcnow rows i
                = (Inr (Reply 204 ()), filter (\<lambda>r. t_id r \<noteq> i) rows, m'))"
proof -
  note f = get_by_id_found [OF assms]
  have svc: "TaskService_delete_task client_delete url rows i
               = (Inr True, filter (\<lambda>r. t_id r \<noteq> i) rows)"
    using assms f(1)
    by (simp add: TaskService_delete_task_def delete_task_files_returns TaskRepository_delete_def)
  then have "api_delete_task client_delete url m send_json utcnow rows i
               = (Inr (Reply 204 ()), filter (\<lambda>r. t_id r \<noteq> i) rows, m')"
    if "snd (broadcast_task_deleted m i utcnow send_json) = Inr m'" for m'
    using that by (simp add: api_delete_task_def)
  with svc f(2) show ?thesis
    by (simp add: delete_task_files_returns get_by_id_deleted)
qed

theorem delete_task_ignores_cleanup_outcome_witness:
  "TaskRepository_get_by_id [old_task] 1 = Inr (Some old_task)
   \<and> TaskService_delete_task (\<lambda>url. Inl ConnectError) ''http://localhost:8001'' [old_task] 1
       = (Inr True, [])
   \<and> TaskService_delete_task (\<lambda>url. Inr 503) ''http://localhost:8001'' [old_task] 1
       = (Inr True, [])
   \<and> api_delete_task (\<lambda>url. Inl TimeoutException) ''http://localhost:8001''
        new_manager (\<lambda>c. None) ''now'' [old_task] 1
       = (Inr (Reply 204 ()), [], new_manager)"
proof -
  have h: "TaskRepository_get_by_id [old_task] 1 = Inr (Some old_task)"
    by (simp add: TaskRepository_get_by_id_def old_task_def int32_def)
  have b: "snd (broadcast_task_deleted new_manager 1 ''now'' (\<lambda>c. None)) = Inr new_manager"
    by (simp add: broadcast_task_deleted_def broadcast_without_clients)
  from h b
    delete_task_ignores_cleanup_outcome
      [OF h, of "\<lambda>url. Inl ConnectError" "''http://localhost:8001''" new_manager "''now''" "\<lambda>c. None"]
    delete_task_ignores_cleanup_outcome
      [OF h, of "\<lambda>url. Inr 503" "''http://localhost:8001''" new_manager "''now''" "\<lambda>c. None"]
    delete_task_ignores_cleanup_outcome
      [OF h, of "\<lambda>url. Inl TimeoutException" "''http://localhost:8001''" new_manager "''now''" "\<lambda>c. None"]
  show ?thesis
    by (simp add: old_task_def)
qed

section \<open>Listing tasks\<close>







section \<open>The connection registry\<close>

lemma update_new_key: "map_of ps k = None \<Longrightarrow> AList.update k v ps = ps @ [(k, v)]"
  by (induction ps) (auto split: if_splits)

lemma delete_absent_key: "map_of ps k = None \<Longrightarrow> AList.delete k ps = ps"
  by (induction ps) (auto split: if_splits)

lemma values_after_delete:
  "distinct (map fst ps) \<Longrightarrow> distinct (map snd ps) \<Longrightarrow> map_of ps k = Some v
     \<Longrightarrow> set (map snd (AList.delete k ps)) = set (map snd ps) - {v}"
proof (induction ps)
  case Nil
  then show ?case by simp
next
  case (Cons p ps)
  show ?case
  proof (cases "fst p = k")
    case True
    with Cons.prems have v: "snd p = v" by (cases p) simp
    from True Cons.prems(1) have "map_of ps k = None"
      by (cases p) (simp add: map_of_eq_None_iff)
    then have "AList.delete k ps = ps" by (rule delete_absent_key)
    with True v Cons.prems(2) show ?thesis by (cases p) auto
  next
    case False
    with Cons.prems have m: "map_of ps k = Some v" by (cases p) simp
    from Cons.prems have d: "distinct (map fst ps)" "distinct (map snd ps)" by simp_all
    have "v \<in> set (map snd ps)"
      using m by (metis map_of_SomeD set_zip_rightD zip_map_fst_snd)
    with Cons.prems(2) have "snd p \<noteq> v" by auto
    with False Cons.IH [OF d m] show ?thesis by (cases p) auto
  qed
qed

lemma distinct_values_delete: "distinct (map snd ps) \<Longrightarrow> distinct (map snd (AList.delete k ps))"
  by (simp add: AList.delete_eq distinct_map_filter)

lemma one_entry:
  "distinct (map snd ps) \<Longrightarrow> ws \<in> set (map snd ps)
     \<Longrightarrow> length (filter (\<lambda>(cid, w). w = ws) ps) = 1"
proof (induction ps)
  case Nil
  then show ?case by simp
next
  case (Cons p ps)
  show ?case
  proof (cases "snd p = ws")
    case True
    with Cons.prems(1) have "ws \<notin> set (map snd ps)" by auto
    then have "filter (\<lambda>(cid, w). w = ws) ps = []"
      by (force simp: filter_empty_conv)
    with True show ?thesis by (cases p) simp
  next
    case False
    with Cons show ?thesis by (cases p) auto
  qed
qed

lemma registered_consistent: "registered m \<Longrightarrow> registry_consistent m"
  unfolding registered_def registry_consistent_def
  by (auto simp: one_entry) force

lemma registered_new: "registered new_manager"
  by (simp add: registered_def new_manager_def)

lemma registered_call:
  assumes "registered m" and "paired m c"
  shows "registered (call m c)"
proof (cases c)
  case (Connect ws cid acc)
  show ?thesis
  proof (cases acc)
    case None
    from assms(2) Connect have fresh: "ws \<notin> active_connections m"
      "map_of (connection_ids m) cid = None" by simp_all
    then have "cid \<notin> fst ` set (connection_ids m)"
      by (simp add: map_of_eq_None_iff)
    with assms(1) fresh Connect None show ?thesis
      by (auto simp: registered_def connect_def update_new_key)
  next
    case (Some e)
    with assms(1) Connect show ?thesis by (simp add: connect_def)
  qed
next
  case (Disconnect ws cid)
  from assms(2) Disconnect consider
      (reg) "map_of (connection_ids m) cid = Some ws"
    | (none) "ws \<notin> active_connections m" "map_of (connection_ids m) cid = None"
    by auto
  then show ?thesis
  proof cases
    case reg
    from assms(1) have d: "distinct (map fst (connection_ids m))"
      "distinct (map snd (connection_ids m))"
      and s: "set (map snd (connection_ids m)) = active_connections m"
      by (simp_all add: registered_def)
    have a: "set (map snd (AList.delete cid (connection_ids m)))
               = set (map snd (connection_ids m)) - {ws}"
      by (rule values_after_delete [OF d reg])
    have b: "distinct (map fst (AList.delete cid (connection_ids m)))"
      using d(1) by (rule AList.distinct_delete)
    have c: "distinct (map snd (AList.delete cid (connection_ids m)))"
      using d(2) by (rule distinct_values_delete)
    show ?thesis
      unfolding registered_def Disconnect call.simps disconnect_def
      using a b c s by simp
  next
    case none
    with assms(1) Disconnect show ?thesis
      by (simp add: registered_def disconnect_def delete_absent_key)
  qed
qed

lemma registered_calls:
  "registered m \<Longrightarrow> all_paired m cs \<Longrightarrow> registered (foldl call m cs)"
  by (induction cs arbitrary: m) (auto simp: registered_call)

lemma registered_count: "registered m \<Longrightarrow> connection_count m = int (length (connection_ids m))"
  unfolding registered_def connection_count_def
  by (metis distinct_card length_map)

text \<open>
  Claim C3, as the code has it. After every sequence of \<open>Connect\<close> and \<open>Disconnect\<close>
  calls in which each call is paired with the state it meets (a \<open>Connect\<close> brings a new
  websocket under a new identifier; a \<open>Disconnect\<close> names a websocket with the identifier
  it is registered under, or a pair of which nothing is registered), every connection of
  the set has exactly one entry in the dictionary, every entry is a connection of the
  set, and \<open>connection_count\<close> is also the number of entries. After every sequence
  whatsoever, \<open>connection_count\<close> is the size of the set.
\<close>

theorem paired_calls_keep_registry_consistent:
  "(all_paired new_manager calls \<longrightarrow>
      registry_consistent (run calls)
      \<and> connection_count (run calls) = int (length (connection_ids (run calls))))
   \<and> connection_count (run calls) = int (card (active_connections (run calls)))"
proof -
  have r: "registered (run calls)" if "all_paired new_manager calls"
    unfolding run_def using registered_new that by (rule registered_calls)
  have a: "registry_consistent (run calls)" if "all_paired new_manager calls"
    using r [OF that] by (rule registered_consistent)
  have b: "connection_count (run calls) = int (length (connection_ids (run calls)))"
    if "all_paired new_manager calls"
    using r [OF that] by (rule registered_count)
  have c: "connection_count (run calls) = int (card (active_connections (run calls)))"
    by (simp add: connection_count_def)
  from a b c show ?thesis
    by blast
qed

theorem paired_calls_keep_registry_consistent_witness:
  "all_paired new_manager
     [Connect 1 ''a'' None, Connect 2 ''b'' None, Disconnect 1 ''a'', Connect 3 ''a'' None]
   \<and> registry_consistent
       (run [Connect 1 ''a'' None, Connect 2 ''b'' None, Disconnect 1 ''a'', Connect 3 ''a'' None])
   \<and> connection_count
       (run [Connect 1 ''a'' None, Connect 2 ''b'' None, Disconnect 1 ''a'', Connect 3 ''a'' None])
       = 2"
proof -
  let ?calls = "[Connect 1 ''a'' None, Connect 2 ''b'' None, Disconnect 1 ''a'', Connect 3 ''a'' None]"
  have h: "all_paired new_manager ?calls"
    by (simp add: new_manager_def connect_def disconnect_def)
  have n: "length (connection_ids (run ?calls)) = 2"
    by (simp add: run_def new_manager_def connect_def disconnect_def)
  from h n paired_calls_keep_registry_consistent [of ?calls] show ?thesis
    by simp
qed

text \<open>
  The claim as stated fails on a repeated identifier: after two connections under the
  same identifier the set holds both, and the dictionary only the second.
\<close>

theorem repeated_client_id_counterexample:
  "\<not> registry_consistent (run [Connect 1 ''a'' None, Connect 2 ''a'' None])"
  by (simp add: registry_consistent_def run_def new_manager_def connect_def)

section \<open>The broadcast timestamp\<close>

lemma stamp_only:
  "fst (broadcast m message now send_json)
     = (if map_of message ''timestamp'' = None
        then AList.update ''timestamp'' (JStr now) message else message)"
  by (simp add: broadcast_def Let_def split: sum.splits)

text \<open>
  Claim C9. A message without the key \<open>timestamp\<close> leaves \<open>broadcast\<close> with that key
  added at its end, bound to the clock's string, and every other key as it was; a message
  that has the key leaves \<open>broadcast\<close> unchanged. Both hold whatever the sends do.
\<close>

theorem broadcast_stamps_only_unstamped:
  "(map_of message ''timestamp'' = None \<longrightarrow>
      fst (broadcast m message now send_json) = message @ [(''timestamp'', JStr now)]
      \<and> map_of (fst (broadcast m message now send_json)) ''timestamp'' = Some (JStr now)
      \<and> (\<forall>k. k \<noteq> ''timestamp'' \<longrightarrow>
             map_of (fst (broadcast m message now send_json)) k = map_of message k))
   \<and> (map_of message ''timestamp'' \<noteq> None \<longrightarrow>
        fst (broadcast m message now send_json) = message)"
proof -
  have fresh: "fst (broadcast m message now send_json) = message @ [(''timestamp'', JStr now)]"
    and here: "map_of (fst (broadcast m message now send_json)) ''timestamp'' = Some (JStr now)"
    and others: "\<forall>k. k \<noteq> ''timestamp'' \<longrightarrow>
                   map_of (fst (broadcast m message now send_json)) k = map_of message k"
    if "map_of message ''timestamp'' = None"
    using that by (simp_all add: stamp_only update_new_key [symmetric] AList.update_conv')
  have kept: "fst (broadcast m message now send_json) = message"
    if "map_of message ''timestamp'' \<noteq> None"
    using that by (auto simp: stamp_only)
  from fresh here others kept show ?thesis
    by blast
qed

theorem broadcast_stamps_only_unstamped_witness:
  "map_of [(''type'', JStr ''test''), (''data'', JDict [(''value'', JInt 123)])] ''timestamp'' = None
   \<and> fst (broadcast new_manager
            [(''type'', JStr ''test''), (''data'', JDict [(''value'', JInt 123)])]
            ''2024-01-01T12:00:00'' (\<lambda>c. None))
       = [(''type'', JStr ''test''), (''data'', JDict [(''value'', JInt 123)]),
          (''timestamp'', JStr ''2024-01-01T12:00:00'')]
   \<and> map_of [(''type'', JStr ''test''), (''timestamp'', JStr ''then'')] ''timestamp'' \<noteq> None
   \<and> fst (broadcast new_manager [(''type'', JStr ''test''), (''timestamp'', JStr ''then'')]
            ''2024-01-01T12:00:00'' (\<lambda>c. None))
       = [(''type'', JStr ''test''), (''timestamp'', JStr ''then'')]"
proof -
  have h1: "map_of [(''type'', JStr ''test''), (''data'', JDict [(''value'', JInt 123)])]
              ''timestamp'' = None"
    by simp
  have h2: "map_of [(''type'', JStr ''test''), (''timestamp'', JStr ''then'')] ''timestamp'' \<noteq> None"
    by simp
  from h1 h2
    broadcast_stamps_only_unstamped
      [of "[(''type'', JStr ''test''), (''data'', JDict [(''value'', JInt 123)])]"
          new_manager "''2024-01-01T12:00:00''" "\<lambda>c. None"]
    broadcast_stamps_only_unstamped
      [of "[(''type'', JStr ''test''), (''timestamp'', JStr ''then'')]"
          new_manager "''2024-01-01T12:00:00''" "\<lambda>c. None"]
  show ?thesis
    by simp
qed

section \<open>Upload validation\<close>

text \<open>
  Claim C4. When the extension check rejects, \<open>upload_file\<close> raises the error that lists
  the allowed extensions and leaves the upload stream unread and the service (object
  store and table) as it was. When the extension check passes and the size check rejects
  the number of bytes read from the stream, it raises the error that names the configured
  megabyte limit, and the service is again as it was: nothing is written to the store and
  no row is created. The endpoint turns both into a 400 with that text.
\<close>

theorem upload_validates_before_effects:
  "(\<not> validate_file_extension settings (upload_filename u) \<longrightarrow>
      FileService_upload_file settings w unique_id now u tid who
        = (Inl (extension_error settings), u, w)
      \<and> api_upload_file settings w unique_id now u tid who
        = (HTTPException 400
             (''File extension not allowed. Allowed extensions: ''
              @ join '', '' (allowed_extensions settings)), u, w))
   \<and> (validate_file_extension settings (upload_filename u)
       \<and> \<not> validate_file_size settings (int (length (fst (read u)))) \<longrightarrow>
      FileService_upload_file settings w unique_id now u tid who
        = (Inl (size_error settings), snd (read u), w)
      \<and> api_upload_file settings w unique_id now u tid who
        = (HTTPException 400
             (''File size exceeds maximum limit of ''
              @ str_int (max_file_size_mb settings) @ '' MB''), snd (read u), w))"
proof -
  have ext: "FileService_upload_file settings w unique_id now u tid who
               = (Inl (extension_error settings), u, w)"
    if "\<not> validate_file_extension settings (upload_filename u)"
    using that by (simp add: FileService_upload_file_def)
  have size: "FileService_upload_file settings w unique_id now u tid who
               = (Inl (size_error settings), snd (read u), w)"
    if "validate_file_extension settings (upload_filename u)"
      and "\<not> validate_file_size settings (int (length (fst (read u))))"
    using that by (simp add: FileService_upload_file_def Let_def split_beta)
  show ?thesis
    using ext size
    by (auto simp: api_upload_file_def extension_error_def size_error_def)
qed

theorem upload_validates_before_effects_witness:
  "\<not> validate_file_extension default_settings ''a.exe''
   \<and> FileService_upload_file default_settings empty_service ''u1'' 5
        \<lparr>upload_filename = ''a.exe'', upload_content_type = None, stream = ''xyz'', pos = 0\<rparr>
        1 None
      = (Inl (extension_error default_settings),
         \<lparr>upload_filename = ''a.exe'', upload_content_type = None, stream = ''xyz'', pos = 0\<rparr>,
         empty_service)
   \<and> validate_file_extension \<lparr>max_file_size_mb = 0, allowed_extensions = [''.pdf'']\<rparr> ''a.pdf''
   \<and> \<not> validate_file_size \<lparr>max_file_size_mb = 0, allowed_extensions = [''.pdf'']\<rparr>
          (int (length (fst (read
             \<lparr>upload_filename = ''a.pdf'', upload_content_type = None, stream = ''xyz'', pos = 0\<rparr>))))
   \<and> api_upload_file \<lparr>max_file_size_mb = 0, allowed_extensions = [''.pdf'']\<rparr> empty_service
        ''u1'' 5
        \<lparr>upload_filename = ''a.pdf'', upload_content_type = None, stream = ''xyz'', pos = 0\<rparr>
        1 None
      = (HTTPException 400 ''File size exceeds maximum limit of 0 MB'',
         \<lparr>upload_filename = ''a.pdf'', upload_content_type = None, stream = ''xyz'', pos = 3\<rparr>,
         empty_service)"
proof -
  let ?exe = "\<lparr>upload_filename = ''a.exe'', upload_content_type = None, stream = ''xyz'', pos = 0\<rparr>"
  let ?pdf = "\<lparr>upload_filename = ''a.pdf'', upload_content_type = None, stream = ''xyz'', pos = 0\<rparr>"
  let ?tiny = "\<lparr>max_file_size_mb = 0, allowed_extensions = [''.pdf'']\<rparr>"
  have h1: "\<not> validate_file_extension default_settings (upload_filename ?exe)"
    by (simp add: validate_file_extension_def default_settings_def splitext_def rfind_def
        Let_def skip_leading_dots.simps lower_def lower_char_def)
  have h2: "validate_file_extension ?tiny (upload_filename ?pdf)"
    by (simp add: validate_file_extension_def splitext_def rfind_def
        Let_def skip_leading_dots.simps lower_def lower_char_def)
  have h3: "\<not> validate_file_size ?tiny (int (length (fst (read ?pdf))))"
    by (simp add: validate_file_size_def max_file_size_bytes_def read_def)
  have r: "snd (read ?pdf) = ?pdf\<lparr>pos := 3\<rparr>"
    by (simp add: read_def)
  have m: "str_int 0 = ''0''"
    by (simp add: str_int_def str_nat.simps digit_def)
  from h1 h2 h3
    upload_validates_before_effects [of default_settings ?exe empty_service "''u1''" 5 1 None]
    upload_validates_before_effects [of ?tiny ?pdf empty_service "''u1''" 5 1 None]
  show ?thesis
    by (simp add: r m)
qed

section \<open>Names made of a leading dot\<close>

lemma rfind_from_absent: "c \<notin> set p \<Longrightarrow> rfind_from c p i found = found"
  by (induction p arbitrary: i found) auto

lemma rfind_from_lower_bound: "- 1 \<le> found \<Longrightarrow> 0 \<le> i \<Longrightarrow> - 1 \<le> rfind_from c p i found"
  by (induction p arbitrary: i found) auto

lemma splitext_leading_dot:
  assumes "CHR ''.'' \<notin> set rest"
  shows "splitext (CHR ''.'' # rest) = (CHR ''.'' # rest, [])"
proof -
  have dot: "rfind (CHR ''.'' # rest) CHR ''.'' = 0"
    using assms by (simp add: rfind_def rfind_from_absent)
  have sep: "- 1 \<le> rfind (CHR ''.'' # rest) CHR ''/''"
    unfolding rfind_def by (rule rfind_from_lower_bound) simp_all
  show ?thesis
  proof (cases "rfind (CHR ''.'' # rest) CHR ''/'' = - 1")
    case True
    then show ?thesis
      by (simp add: splitext_def dot Let_def skip_leading_dots.simps)
  next
    case False
    with sep have "0 \<le> rfind (CHR ''.'' # rest) CHR ''/''" by simp
    then show ?thesis
      by (simp add: splitext_def dot Let_def)
  qed
qed

text \<open>
  Claim C10, as the code has it. A file name whose only dot is its first character has
  the empty extension, so the extension check accepts it exactly when the empty string is
  in the allow-list; when the empty string is not in the list the upload is rejected with
  the extension error, also when the name itself is in the list.
\<close>

theorem leading_dot_name_extension:
  assumes "CHR ''.'' \<notin> set rest"
  shows "snd (splitext (CHR ''.'' # rest)) = []
       \<and> validate_file_extension settings (CHR ''.'' # rest)
           = ([] \<in> set (allowed_extensions settings))
       \<and> ([] \<notin> set (allowed_extensions settings) \<and> upload_filename u = CHR ''.'' # rest \<longrightarrow>
            FileService_upload_file settings w unique_id now u tid who
              = (Inl (extension_error settings), u, w))"
proof -
  have e: "snd (splitext (CHR ''.'' # rest)) = []"
    using splitext_leading_dot [OF assms] by simp
  then have v: "validate_file_extension settings (CHR ''.'' # rest)
                  = ([] \<in> set (allowed_extensions settings))"
    by (simp add: validate_file_extension_def lower_def)
  have "FileService_upload_file settings w unique_id now u tid who
          = (Inl (extension_error settings), u, w)"
    if "[] \<notin> set (allowed_extensions settings)" and "upload_filename u = CHR ''.'' # rest"
    using that v by (simp add: FileService_upload_file_def)
  with e v show ?thesis
    by blast
qed

theorem leading_dot_name_extension_witness:
  "CHR ''.'' \<notin> set ''pdf''
   \<and> [] \<notin> set (allowed_extensions default_settings)
   \<and> ''.pdf'' \<in> set (allowed_extensions default_settings)
   \<and> snd (splitext ''.pdf'') = []
   \<and> \<not> validate_file_extension default_settings ''.pdf''
   \<and> FileService_upload_file default_settings empty_service ''u1'' 5
        \<lparr>upload_filename = ''.pdf'', upload_content_type = None, stream = ''xyz'', pos = 0\<rparr>
        1 None
      = (Inl (extension_error default_settings),
         \<lparr>upload_filename = ''.pdf'', upload_content_type = None, stream = ''xyz'', pos = 0\<rparr>,
         empty_service)"
proof -
  let ?u = "\<lparr>upload_filename = ''.pdf'', upload_content_type = None, stream = ''xyz'', pos = 0\<rparr>"
  have h1: "CHR ''.'' \<notin> set ''pdf''"
    by simp
  have h2: "[] \<notin> set (allowed_extensions default_settings)"
    and h3: "''.pdf'' \<in> set (allowed_extensions default_settings)"
    by (simp_all add: default_settings_def)
  have h4: "upload_filename ?u = CHR ''.'' # ''pdf''"
    by simp
  from h2 h4 leading_dot_name_extension [OF h1, of default_settings ?u empty_service "''u1''" 5 1 None]
  have "snd (splitext ''.pdf'') = []
      \<and> \<not> validate_file_extension default_settings ''.pdf''
      \<and> FileService_upload_file default_settings empty_service ''u1'' 5 ?u 1 None
          = (Inl (extension_error default_settings), ?u, empty_service)"
    by simp
  with h1 h2 h3 show ?thesis
    by blast
qed

text \<open>
  The claim as stated fails when the allow-list holds the empty string: with the list
  \<open>[".pdf", ""]\<close> the name \<open>.pdf\<close> passes the check and the upload is stored.
\<close>

theorem empty_extension_allowed_counterexample:
  "''.pdf'' \<in> set (allowed_extensions \<lparr>max_file_size_mb = 10, allowed_extensions = [''.pdf'', []]\<rparr>)
   \<and> validate_file_extension \<lparr>max_file_size_mb = 10, allowed_extensions = [''.pdf'', []]\<rparr> ''.pdf''
   \<and> fst (FileService_upload_file \<lparr>max_file_size_mb = 10, allowed_extensions = [''.pdf'', []]\<rparr>
            empty_service ''u1'' 5
            \<lparr>upload_filename = ''.pdf'', upload_content_type = None, stream = ''xyz'', pos = 0\<rparr>
            1 None)
       = Inr (\<lparr>f_id = 1, task_id = 1, filename = ''.pdf'', file_key = ''tasks/1/u1_.pdf'',
               content_type = ''application/octet-stream'', size_bytes = 3, uploaded_at = 5,
               uploaded_by = None\<rparr>, ''File uploaded successfully'')"
proof -
  let ?s = "\<lparr>max_file_size_mb = 10, allowed_extensions = [''.pdf'', []]\<rparr>"
  have v: "validate_file_extension ?s ''.pdf''"
    by (simp add: validate_file_extension_def splitext_def rfind_def
        Let_def skip_leading_dots.simps lower_def)
  have k: "generate_file_key ''u1'' 1 ''.pdf'' = ''tasks/1/u1_.pdf''"
    by (simp add: generate_file_key_def replace_char_def str_int_def str_nat.simps digit_def)
  have "fst (FileService_upload_file ?s empty_service ''u1'' 5
            \<lparr>upload_filename = ''.pdf'', upload_content_type = None, stream = ''xyz'', pos = 0\<rparr>
            1 None)
       = Inr (\<lparr>f_id = 1, task_id = 1, filename = ''.pdf'', file_key = ''tasks/1/u1_.pdf'',
               content_type = ''application/octet-stream'', size_bytes = 3, uploaded_at = 5,
               uploaded_by = None\<rparr>, ''File uploaded successfully'')"
    using v
    by (simp add: FileService_upload_file_def read_def validate_file_size_def
        max_file_size_bytes_def S3Service_upload_file_def put_object_def k empty_service_def
        declared_content_type_def FileRepository_create_def fits_columns_def int32_def
        int64_def Let_def)
  with v show ?thesis
    by simp
qed

section \<open>Deleting one file\<close>

lemma file_get_by_id_found:
  assumes "FileRepository_get_by_id rows i = Inr (Some f)"
  shows "f_id f = i" and "int32 i" and "f \<in> set rows"
  using assms
  by (auto simp: FileRepository_get_by_id_def find_Some_iff split: if_splits)

lemma file_get_by_id_deleted:
  "int32 i \<Longrightarrow> FileRepository_get_by_id (filter (\<lambda>r. f_id r \<noteq> i) rows) i = Inr None"
  by (simp add: FileRepository_get_by_id_def find_None_iff)

lemma S3Service_delete_file_result:
  "S3Service_delete_file c key =
     (case fault c key of
        None \<Rightarrow> Inr (True, c\<lparr>objects := (objects c)(key := None)\<rparr>)
      | Some (Refused msg) \<Rightarrow> Inr (False, c)
      | Some (Unreachable msg) \<Rightarrow> Inl (BotoCoreError msg))"
  by (simp add: S3Service_delete_file_def delete_object_def split: option.splits s3_fault.splits)

text \<open>
  Claim C5, as the code has it. For an existing file id, when the store is reached, the
  storage service's \<open>delete_file\<close> returns a flag and does not raise: \<open>True\<close> when the
  store deleted the object, \<open>False\<close> when the store answered with an error
  (\<open>ClientError\<close>), in which case the object store is unchanged. Whatever the flag,
  \<open>FileService.delete_file\<close> removes the metadata row and returns \<open>True\<close> (204 at the
  endpoint), and the id is no longer found. When the store is not reached, the client's
  exception is not caught: it leaves \<open>delete_file\<close> and the endpoint, and the service
  with its metadata row is as it was.
\<close>

theorem delete_file_ignores_refusal:
  assumes "FileRepository_get_by_id (files w) i = Inr (Some f)"
  shows "((\<forall>msg. fault (s3_client w) (file_key f) \<noteq> Some (Unreachable msg)) \<longrightarrow>
           (\<exists>c'. S3Service_delete_file (s3_client w) (file_key f)
                    = Inr (fault (s3_client w) (file_key f) = None, c')
                \<and> (fault (s3_client w) (file_key f) \<noteq> None \<longrightarrow> c' = s3_client w)
                \<and> FileService_delete_file w i
                    = (Inr True, w\<lparr>s3_client := c',
                                   files := filter (\<lambda>r. f_id r \<noteq> i) (files w)\<rparr>)
                \<and> api_delete_file w i
                    = (Inr (Reply 204 ()), w\<lparr>s3_client := c',
                                              files := filter (\<lambda>r. f_id r \<noteq> i) (files w)\<rparr>)
                \<and> FileRepository_get_by_id (filter (\<lambda>r. f_id r \<noteq> i) (files w)) i = Inr None))
       \<and> (\<forall>msg. fault (s3_client w) (file_key f) = Some (Unreachable msg) \<longrightarrow>
             S3Service_delete_file (s3_client w) (file_key f) = Inl (BotoCoreError msg)
           \<and> FileService_delete_file w i = (Inl (BotoCoreError msg), w)
           \<and> api_delete_file w i = (Inl (BotoCoreError msg), w))"
proof -
  note k = file_get_by_id_found [OF assms]
  have served: "\<exists>c'. S3Service_delete_file (s3_client w) (file_key f)
                    = Inr (fault (s3_client w) (file_key f) = None, c')
                \<and> (fault (s3_client w) (file_key f) \<noteq> None \<longrightarrow> c' = s3_client w)
                \<and> FileService_delete_file w i
                    = (Inr True, w\<lparr>s3_client := c',
                                   files := filter (\<lambda>r. f_id r \<noteq> i) (files w)\<rparr>)
                \<and> api_delete_file w i
                    = (Inr (Reply 204 ()), w\<lparr>s3_client := c',
                                              files := filter (\<lambda>r. f_id r \<noteq> i) (files w)\<rparr>)
                \<and> FileRepository_get_by_id (filter (\<lambda>r. f_id r \<noteq> i) (files w)) i = Inr None"
    if reach: "\<forall>msg. fault (s3_client w) (file_key f) \<noteq> Some (Unreachable msg)"
  proof -
    define c' where "c' = (if fault (s3_client w) (file_key f) = None
        then (s3_client w)\<lparr>objects := (objects (s3_client w))(file_key f := None)\<rparr>
        else s3_client w)"
    have s: "S3Service_delete_file (s3_client w) (file_key f)
               = Inr (fault (s3_client w) (file_key f) = None, c')"
      using reach
      by (simp add: S3Service_delete_file_result c'_def split: option.splits s3_fault.splits)
    have kept: "fault (s3_client w) (file_key f) \<noteq> None \<longrightarrow> c' = s3_client w"
      by (simp add: c'_def)
    have d: "FileService_delete_file w i
               = (Inr True, w\<lparr>s3_client := c', files := filter (\<lambda>r. f_id r \<noteq> i) (files w)\<rparr>)"
      using assms k(1) by (simp add: FileService_delete_file_def s FileRepository_delete_def)
    then have a: "api_delete_file w i
               = (Inr (Reply 204 ()), w\<lparr>s3_client := c',
                                         files := filter (\<lambda>r. f_id r \<noteq> i) (files w)\<rparr>)"
      by (simp add: api_delete_file_def)
    from s kept d a file_get_by_id_deleted [OF k(2)] show ?thesis
      by blast
  qed
  have lost: "S3Service_delete_file (s3_client w) (file_key f) = Inl (BotoCoreError msg)
           \<and> FileService_delete_file w i = (Inl (BotoCoreError msg), w)
           \<and> api_delete_file w i = (Inl (BotoCoreError msg), w)"
    if "fault (s3_client w) (file_key f) = Some (Unreachable msg)" for msg
    using that assms
    by (simp add: S3Service_delete_file_result FileService_delete_file_def api_delete_file_def)
  from served lost show ?thesis
    by blast
qed

theorem delete_file_ignores_refusal_witness:
  "FileRepository_get_by_id (files (store_with (\<lambda>key. Some (Refused ''AccessDenied'')))) 1
     = Inr (Some one_file)
   \<and> S3Service_delete_file (s3_client (store_with (\<lambda>key. Some (Refused ''AccessDenied''))))
        (file_key one_file)
       = Inr (False, s3_client (store_with (\<lambda>key. Some (Refused ''AccessDenied''))))
   \<and> FileService_delete_file (store_with (\<lambda>key. Some (Refused ''AccessDenied''))) 1
       = (Inr True, (store_with (\<lambda>key. Some (Refused ''AccessDenied'')))\<lparr>files := []\<rparr>)
   \<and> FileService_delete_file (store_with (\<lambda>key. Some (Unreachable ''timed out''))) 1
       = (Inl (BotoCoreError ''timed out''), store_with (\<lambda>key. Some (Unreachable ''timed out'')))"
proof -
  let ?w = "store_with (\<lambda>key. Some (Refused ''AccessDenied''))"
  let ?v = "store_with (\<lambda>key. Some (Unreachable ''timed out''))"
  have h: "FileRepository_get_by_id (files ?w) 1 = Inr (Some one_file)"
    and h': "FileRepository_get_by_id (files ?v) 1 = Inr (Some one_file)"
    by (simp_all add: FileRepository_get_by_id_def store_with_def one_file_def int32_def)
  have f: "\<forall>msg. fault (s3_client ?w) (file_key one_file) \<noteq> Some (Unreachable msg)"
    "fault (s3_client ?w) (file_key one_file) \<noteq> None"
    and f': "fault (s3_client ?v) (file_key one_file) = Some (Unreachable ''timed out'')"
    by (simp_all add: store_with_def)
  have r: "filter (\<lambda>r. f_id r \<noteq> 1) (files ?w) = []"
    by (simp add: store_with_def one_file_def)
  from delete_file_ignores_refusal [OF h] f r
  have a: "S3Service_delete_file (s3_client ?w) (file_key one_file) = Inr (False, s3_client ?w)
         \<and> FileService_delete_file ?w 1 = (Inr True, ?w\<lparr>files := []\<rparr>)"
    by auto
  from delete_file_ignores_refusal [OF h'] f'
  have b: "FileService_delete_file ?v 1 = (Inl (BotoCoreError ''timed out''), ?v)"
    by blast
  from h a b show ?thesis
    by blast
qed

text \<open>
  The claim as stated fails when the store is not reached: the error of the deletion is
  propagated, not converted to \<open>False\<close>, and the row stays.
\<close>

theorem unreachable_store_counterexample:
  "FileRepository_get_by_id (files (store_with (\<lambda>key. Some (Unreachable ''timed out'')))) 1
     = Inr (Some one_file)
   \<and> S3Service_delete_file (s3_client (store_with (\<lambda>key. Some (Unreachable ''timed out''))))
        (file_key one_file)
       = Inl (BotoCoreError ''timed out'')
   \<and> api_delete_file (store_with (\<lambda>key. Some (Unreachable ''timed out''))) 1
       = (Inl (BotoCoreError ''timed out''), store_with (\<lambda>key. Some (Unreachable ''timed out'')))
   \<and> files (store_with (\<lambda>key. Some (Unreachable ''timed out''))) = [one_file]"
  by (simp add: api_delete_file_def FileService_delete_file_def S3Service_delete_file_result
      FileRepository_get_by_id_def store_with_def int32_def)
     (simp add: one_file_def)

section \<open>Deleting the files of a task\<close>


lemma foldl_delete_rows:
  "foldl FileRepository_delete rows fs = filter (\<lambda>r. f_id r \<notin> f_id ` set fs) rows"
proof (induction fs arbitrary: rows)
  case Nil
  then show ?case by simp
next
  case (Cons f fs)
  have "foldl FileRepository_delete (FileRepository_delete rows f) fs
          = filter (\<lambda>r. f_id r \<notin> f_id ` set fs) (FileRepository_delete rows f)"
    by (rule Cons.IH)
  also have "\<dots> = filter (\<lambda>r. f_id r \<notin> f_id ` set (f # fs)) rows"
    by (auto simp: FileRepository_delete_def intro!: filter_cong)
  finally show ?case
    by simp
qed







section \<open>Download\<close>

lemma sizes_shrink:
  assumes "sizes_recorded w"
      and "set (files w') \<subseteq> set (files w)"
      and "\<And>k obj. objects (s3_client w') k = Some obj \<Longrightarrow> objects (s3_client w) k = Some obj"
  shows "sizes_recorded w'"
  using assms unfolding sizes_recorded_def by blast

lemma delete_objects_shrinks:
  "objects (snd (delete_objects c fs)) k = Some obj \<Longrightarrow> objects c k = Some obj"
proof (induction fs arbitrary: c)
  case Nil
  then show ?case by simp
next
  case (Cons f fs)
  show ?case
  proof (cases "fault c (file_key f)")
    case None
    with Cons.prems
    have "objects (snd (delete_objects (c\<lparr>objects := (objects c)(file_key f := None)\<rparr>) fs)) k
            = Some obj"
      by (simp add: S3Service_delete_file_def delete_object_def)
    from Cons.IH [OF this] show ?thesis
      by (simp split: if_splits)
  next
    case (Some flt)
    with Cons.prems Cons.IH show ?thesis
      by (cases flt) (simp_all add: S3Service_delete_file_def delete_object_def)
  qed
qed

lemma foldl_delete_subset: "set (foldl FileRepository_delete rows fs) \<subseteq> set rows"
  by (simp add: foldl_delete_rows)

lemma sizes_delete_file:
  assumes "sizes_recorded w"
  shows "sizes_recorded (snd (FileService_delete_file w i))"
proof (rule sizes_shrink [OF assms])
  show "set (files (snd (FileService_delete_file w i))) \<subseteq> set (files w)"
    by (auto simp: FileService_delete_file_def FileRepository_delete_def
        split: sum.splits option.splits prod.splits)
next
  fix k obj
  assume "objects (s3_client (snd (FileService_delete_file w i))) k = Some obj"
  then show "objects (s3_client w) k = Some obj"
    by (auto simp: FileService_delete_file_def S3Service_delete_file_def delete_object_def
        split: sum.splits option.splits prod.splits exc.splits if_splits)
qed

lemma sizes_delete_files_by_task:
  assumes "sizes_recorded w"
  shows "sizes_recorded (snd (FileService_delete_files_by_task w tid))"
proof (rule sizes_shrink [OF assms])
  show "set (files (snd (FileService_delete_files_by_task w tid))) \<subseteq> set (files w)"
    using foldl_delete_subset
    by (auto simp: FileService_delete_files_by_task_def FileRepository_delete_by_task_id_def
        Let_def split: sum.splits prod.splits)
next
  fix k obj
  assume a: "objects (s3_client (snd (FileService_delete_files_by_task w tid))) k = Some obj"
  show "objects (s3_client w) k = Some obj"
  proof (cases "FileRepository_get_by_task_id (files w) tid")
    case (Inl e)
    with a show ?thesis
      by (simp add: FileService_delete_files_by_task_def)
  next
    case (Inr found)
    with a have "objects (snd (delete_objects (s3_client w) found)) k = Some obj"
      by (auto simp: FileService_delete_files_by_task_def split: sum.splits prod.splits)
    then show ?thesis
      by (rule delete_objects_shrinks)
  qed
qed

lemma sizes_upload:
  assumes "sizes_recorded w"
      and "generate_file_key unique_id tid (upload_filename u) \<notin> set (map file_key (files w))"
  shows "sizes_recorded (snd (snd (FileService_upload_file settings w unique_id now u tid who)))"
proof -
  let ?key = "generate_file_key unique_id tid (upload_filename u)"
  have old: "file_key f \<noteq> ?key" if "f \<in> set (files w)" for f
    using assms(2) that by force
  show ?thesis
    using assms(1) old
    unfolding sizes_recorded_def
    by (auto simp: FileService_upload_file_def Let_def split_beta S3Service_upload_file_def
        put_object_def FileRepository_create_def read_def
        split: if_splits sum.splits option.splits)
qed

lemma sizes_step:
  assumes "sizes_recorded w" and "fresh_key w c"
  shows "sizes_recorded (file_step settings w c)"
proof (cases c)
  case (Upload unique_id now u tid who)
  with assms show ?thesis by (simp add: sizes_upload)
next
  case (DeleteFile i)
  with assms show ?thesis by (simp add: sizes_delete_file)
next
  case (DeleteFilesByTask tid)
  with assms show ?thesis by (simp add: sizes_delete_files_by_task)
next
  case (StoreBehaves f)
  with assms show ?thesis by (simp add: sizes_recorded_def)
qed

lemma sizes_run:
  "sizes_recorded w \<Longrightarrow> fresh_keys settings w calls
     \<Longrightarrow> sizes_recorded (foldl (file_step settings) w calls)"
  by (induction calls arbitrary: w) (auto simp: sizes_step)

text \<open>
  Claim C8, as the code has it. In every state that a run of the service produces from
  an empty table (uploads under fresh keys, deletions, any behaviour of the store): an id
  that is not found gets 404; an id that is found and whose object the store returns gets
  200 with the object's bytes, the attachment header naming the stored file name, and a
  \<open>Content-Length\<close> that is the decimal of the number of bytes of the body; when the store
  does not return the object, its exception leaves the endpoint; and an id outside the
  32-bit range of its column is refused by the database.
\<close>

theorem download_reports_body_length:
  assumes "files w0 = []"
      and "fresh_keys settings w0 calls"
  shows "(FileRepository_get_by_id (files (foldl (file_step settings) w0 calls)) i = Inr None \<longrightarrow>
            api_download_file (foldl (file_step settings) w0 calls) i
              = Inr (HTTPException 404 (''File with id '' @ str_int i @ '' not found'')))
       \<and> (\<forall>f b.
            FileRepository_get_by_id (files (foldl (file_step settings) w0 calls)) i = Inr (Some f)
            \<and> get_object (s3_client (foldl (file_step settings) w0 calls)) (file_key f) = Inr b \<longrightarrow>
            api_download_file (foldl (file_step settings) w0 calls) i
              = Inr (Reply 200
                      \<lparr>content = b, media_type = content_type f,
                       headers =
                         [(''Content-Disposition'',
                           ''attachment; filename='' @ [CHR 0x22] @ filename f @ [CHR 0x22]),
                          (''Content-Length'', str_int (int (length b)))]\<rparr>))
       \<and> (\<forall>f e.
            FileRepository_get_by_id (files (foldl (file_step settings) w0 calls)) i = Inr (Some f)
            \<and> get_object (s3_client (foldl (file_step settings) w0 calls)) (file_key f) = Inl e \<longrightarrow>
            api_download_file (foldl (file_step settings) w0 calls) i = Inl e)
       \<and> (\<not> int32 i \<longrightarrow>
            api_download_file (foldl (file_step settings) w0 calls) i = Inl DBAPIError)"
proof -
  define w where "w = foldl (file_step settings) w0 calls"
  have "sizes_recorded w0"
    using assms(1) by (simp add: sizes_recorded_def)
  then have inv: "sizes_recorded w"
    unfolding w_def using assms(2) by (rule sizes_run)
  have missing: "api_download_file w i
              = Inr (HTTPException 404 (''File with id '' @ str_int i @ '' not found''))"
    if "FileRepository_get_by_id (files w) i = Inr None"
    using that by (simp add: api_download_file_def FileService_download_file_def)
  have found: "api_download_file w i
              = Inr (Reply 200
                      \<lparr>content = b, media_type = content_type f,
                       headers =
                         [(''Content-Disposition'',
                           ''attachment; filename='' @ [CHR 0x22] @ filename f @ [CHR 0x22]),
                          (''Content-Length'', str_int (int (length b)))]\<rparr>)"
    if row: "FileRepository_get_by_id (files w) i = Inr (Some f)"
      and got: "get_object (s3_client w) (file_key f) = Inr b" for f b
  proof -
    from got obtain obj where obj: "objects (s3_client w) (file_key f) = Some obj" "b = o_body obj"
      by (auto simp: get_object_def split: option.splits)
    from inv file_get_by_id_found(3) [OF row] obj(1) have "size_bytes f = int (length (o_body obj))"
      unfolding sizes_recorded_def by blast
    with row got obj(2) show ?thesis
      by (simp add: api_download_file_def FileService_download_file_def
          S3Service_download_file_def)
  qed
  have failed: "api_download_file w i = Inl e"
    if "FileRepository_get_by_id (files w) i = Inr (Some f)"
      and "get_object (s3_client w) (file_key f) = Inl e" for f e
    using that
    by (simp add: api_download_file_def FileService_download_file_def
        S3Service_download_file_def)
  have range: "api_download_file w i = Inl DBAPIError" if "\<not> int32 i"
    using that
    by (simp add: api_download_file_def FileService_download_file_def
        FileRepository_get_by_id_def)
  from missing found failed range show ?thesis
    unfolding w_def by blast
qed

lemma uploaded_once_state:
  "uploaded_once =
     \<lparr>s3_client =
        \<lparr>objects = [''tasks/1/u1_a.pdf'' \<mapsto>
            \<lparr>o_body = ''xyz'', o_content_type = ''application/octet-stream'',
             o_metadata = [(''task_id'', ''1''), (''original_filename'', ''a.pdf'')]\<rparr>],
         fault = (\<lambda>key. None)\<rparr>,
      files = [\<lparr>f_id = 1, task_id = 1, filename = ''a.pdf'', file_key = ''tasks/1/u1_a.pdf'',
                content_type = ''application/octet-stream'', size_bytes = 3, uploaded_at = 5,
                uploaded_by = None\<rparr>],
      next_id = 2\<rparr>"
proof -
  have v: "validate_file_extension default_settings ''a.pdf''"
    by (simp add: validate_file_extension_def default_settings_def splitext_def rfind_def
        Let_def skip_leading_dots.simps lower_def lower_char_def)
  have z: "validate_file_size default_settings 3"
    by (simp add: validate_file_size_def max_file_size_bytes_def default_settings_def)
  have k: "generate_file_key ''u1'' 1 ''a.pdf'' = ''tasks/1/u1_a.pdf''"
    and s: "str_int 1 = ''1''"
    by (simp_all add: generate_file_key_def replace_char_def str_int_def str_nat.simps digit_def)
  show ?thesis
    using v z
    by (simp add: uploaded_once_def FileService_upload_file_def read_def
        S3Service_upload_file_def put_object_def k s empty_service_def
        declared_content_type_def FileRepository_create_def fits_columns_def int32_def
        int64_def Let_def)
qed

theorem download_reports_body_length_witness:
  "files empty_service = []
   \<and> fresh_keys default_settings empty_service
       [Upload ''u1'' 5
          \<lparr>upload_filename = ''a.pdf'', upload_content_type = None, stream = ''xyz'', pos = 0\<rparr>
          1 None]
   \<and> api_download_file uploaded_once 1
       = Inr (Reply 200
               \<lparr>content = ''xyz'', media_type = ''application/octet-stream'',
                headers =
                  [(''Content-Disposition'',
                    ''attachment; filename='' @ [CHR 0x22] @ ''a.pdf'' @ [CHR 0x22]),
                   (''Content-Length'', ''3'')]\<rparr>)
   \<and> api_download_file uploaded_once 7 = Inr (HTTPException 404 ''File with id 7 not found'')"
proof -
  let ?u = "\<lparr>upload_filename = ''a.pdf'', upload_content_type = None, stream = ''xyz'', pos = 0\<rparr>"
  let ?f = "\<lparr>f_id = 1, task_id = 1, filename = ''a.pdf'', file_key = ''tasks/1/u1_a.pdf'',
             content_type = ''application/octet-stream'', size_bytes = 3, uploaded_at = 5,
             uploaded_by = None\<rparr>"
  have h1: "files empty_service = []"
    by (simp add: empty_service_def)
  have h2: "fresh_keys default_settings empty_service [Upload ''u1'' 5 ?u 1 None]"
    by (simp add: empty_service_def)
  have r: "FileRepository_get_by_id (files uploaded_once) 1 = Inr (Some ?f)"
    and g: "get_object (s3_client uploaded_once) (file_key ?f) = Inr ''xyz''"
    and n: "FileRepository_get_by_id (files uploaded_once) 7 = Inr None"
    by (simp_all add: uploaded_once_state FileRepository_get_by_id_def get_object_def int32_def)
  have s: "str_int 3 = ''3''" "str_int 7 = ''7''"
    by (simp_all add: str_int_def str_nat.simps digit_def)
  from download_reports_body_length [OF h1 h2, of 1] r g
  have a: "api_download_file uploaded_once 1
       = Inr (Reply 200
               \<lparr>content = ''xyz'', media_type = ''application/octet-stream'',
                headers =
                  [(''Content-Disposition'',
                    ''attachment; filename='' @ [CHR 0x22] @ ''a.pdf'' @ [CHR 0x22]),
                   (''Content-Length'', ''3'')]\<rparr>)"
    unfolding uploaded_once_def [symmetric] by (auto simp: s)
  from download_reports_body_length [OF h1 h2, of 7] n
  have b: "api_download_file uploaded_once 7 = Inr (HTTPException 404 ''File with id 7 not found'')"
    unfolding uploaded_once_def [symmetric] by (auto simp: s)
  from h1 h2 a b show ?thesis
    by blast
qed

text \<open>
  The claim as stated fails for a row that is present when the store is not reached, and
  for an absent id outside the 32-bit range: neither 200 nor 404 is the answer.
\<close>

theorem download_fails_counterexample:
  "FileRepository_get_by_id (files then_unreachable) 1
     = Inr (Some \<lparr>f_id = 1, task_id = 1, filename = ''a.pdf'', file_key = ''tasks/1/u1_a.pdf'',
                  content_type = ''application/octet-stream'', size_bytes = 3, uploaded_at = 5,
                  uploaded_by = None\<rparr>)
   \<and> api_download_file then_unreachable 1 = Inl (BotoCoreError ''timed out'')
   \<and> FileRepository_get_by_id (files uploaded_once) 2147483648 = Inl DBAPIError
   \<and> api_download_file uploaded_once 2147483648 = Inl DBAPIError"
proof -
  have t: "then_unreachable
             = uploaded_once\<lparr>s3_client := (s3_client uploaded_once)
                               \<lparr>fault := (\<lambda>key. Some (Unreachable ''timed out''))\<rparr>\<rparr>"
    by (simp add: then_unreachable_def uploaded_once_def)
  show ?thesis
    unfolding t
    by (simp add: uploaded_once_state api_download_file_def FileService_download_file_def
        S3Service_download_file_def get_object_def FileRepository_get_by_id_def int32_def)
qed

end
